theory Spec2Isabelle
  imports Complex_Main
begin

section \<open>Tensors as shapes, Python exceptions as values\<close>

text \<open>
  The notebook \<^verbatim>\<open>Multi_Modal_text_audio_image.ipynb\<close> moves tensors between library
  layers. The properties verified here are about tensor shapes and about which step
  raises, so a tensor is represented by its shape (the list of its dimension sizes) and
  every library call by what it does to the shape, or the exception it raises.
\<close>

type_synonym shape = "nat list"

datatype error =
    RuntimeError
  | IndexError
  | AssertionError
  | ValueError
  | NameError
  | OSError
  | FileNotFoundError
  | TrialPruned

text \<open>
  A call that may raise returns \<^verbatim>\<open>Inl\<close> of the exception or \<^verbatim>\<open>Inr\<close> of its result.
  \<^verbatim>\<open>and_then\<close> is sequencing: an exception of the first step ends the computation.
\<close>

definition and_then :: "error + 'a \<Rightarrow> ('a \<Rightarrow> error + 'b) \<Rightarrow> error + 'b" where
  "and_then r f = (case r of Inl e \<Rightarrow> Inl e | Inr x \<Rightarrow> f x)"

subsection \<open>\<^verbatim>\<open>torch\<close> operations on shapes\<close>

text \<open>
  \<^verbatim>\<open>nn.Linear(in_features, out_features)\<close>: the layer is its two sizes; applying it
  replaces the last dimension, and raises when the last dimension is not
  \<^verbatim>\<open>in_features\<close>.
\<close>

record linear =
  in_features :: nat
  out_features :: nat

definition nn_Linear :: "nat \<Rightarrow> nat \<Rightarrow> linear" where
  "nn_Linear i out = \<lparr>in_features = i, out_features = out\<rparr>"

definition linear_forward :: "linear \<Rightarrow> shape \<Rightarrow> error + shape" where
  "linear_forward l s =
     (if s = [] then Inl RuntimeError
      else if last s \<noteq> in_features l then Inl RuntimeError
      else Inr (butlast s @ [out_features l]))"

text \<open>
  \<^verbatim>\<open>torch.cat(tensors, dim)\<close>: all tensors have the same rank, \<^verbatim>\<open>dim\<close> is below
  it, and the sizes agree everywhere except at \<^verbatim>\<open>dim\<close>, where they add up. An empty
  tuple raises.
\<close>

definition cat2 :: "nat \<Rightarrow> shape \<Rightarrow> shape \<Rightarrow> error + shape" where
  "cat2 d a b =
     (if length a = length b \<and> d < length a \<and> a[d := 0] = b[d := 0]
      then Inr (a[d := a ! d + b ! d])
      else Inl RuntimeError)"

fun cat_from :: "nat \<Rightarrow> shape \<Rightarrow> shape list \<Rightarrow> error + shape" where
  "cat_from d acc [] = Inr acc"
| "cat_from d acc (s # ss) =
     (case cat2 d acc s of Inl e \<Rightarrow> Inl e | Inr acc' \<Rightarrow> cat_from d acc' ss)"

definition torch_cat :: "shape list \<Rightarrow> nat \<Rightarrow> error + shape" where
  "torch_cat ts d =
     (case ts of
        [] \<Rightarrow> Inl RuntimeError
      | s # ss \<Rightarrow> (if d < length s then cat_from d s ss else Inl IndexError))"

text \<open>\<^verbatim>\<open>t.unsqueeze(0)\<close> prepends a dimension of size one.\<close>

definition unsqueeze0 :: "shape \<Rightarrow> shape" where
  "unsqueeze0 s = 1 # s"

text \<open>
  \<^verbatim>\<open>t[:, 0, :]\<close>: three indices need rank three at least; index 0 of an empty
  second dimension is out of range; otherwise the second dimension disappears.
\<close>

definition index_first :: "shape \<Rightarrow> error + shape" where
  "index_first s =
     (if length s < 3 then Inl IndexError
      else if s ! 1 = 0 then Inl IndexError
      else Inr (hd s # drop 2 s))"

text \<open>
  \<^verbatim>\<open>nn.Transformer(d_model, nhead, num_encoder_layers, num_decoder_layers)\<close>. Its
  constructor builds multi-head attention layers, which reject sizes that are not
  positive and assert that \<^verbatim>\<open>nhead\<close> divides \<^verbatim>\<open>d_model\<close>
  ("embed_dim must be divisible by num_heads"). \<^verbatim>\<open>batch_first\<close> keeps its default,
  \<^verbatim>\<open>False\<close>.
\<close>

record transformer_module =
  d_model :: nat
  nhead :: nat
  num_encoder_layers :: nat
  num_decoder_layers :: nat
  batch_first :: bool

definition nn_Transformer :: "nat \<Rightarrow> nat \<Rightarrow> nat \<Rightarrow> nat \<Rightarrow> error + transformer_module" where
  "nn_Transformer dm nh nenc ndec =
     (if dm = 0 \<or> nh = 0 then Inl ValueError
      else if (dm div nh) * nh \<noteq> dm then Inl AssertionError
      else Inr \<lparr>d_model = dm, nhead = nh, num_encoder_layers = nenc,
                num_decoder_layers = ndec, batch_first = False\<rparr>)"

text \<open>
  \<^verbatim>\<open>nn.Transformer.forward(src, tgt)\<close>: for batched (rank three) input the batch sizes
  of \<^verbatim>\<open>src\<close> and \<^verbatim>\<open>tgt\<close> must agree (dimension 1 unless \<^verbatim>\<open>batch_first\<close>), the
  last dimension of both must be \<^verbatim>\<open>d_model\<close>, and the output has the shape of
  \<^verbatim>\<open>tgt\<close>. Rank two is the unbatched form; other ranks are rejected.
\<close>

definition transformer_forward :: "transformer_module \<Rightarrow> shape \<Rightarrow> shape \<Rightarrow> error + shape" where
  "transformer_forward tr src tgt =
     (if length src \<noteq> length tgt \<or> (length src \<noteq> 2 \<and> length src \<noteq> 3) then Inl RuntimeError
      else if length src = 3 \<and> \<not> batch_first tr \<and> src ! 1 \<noteq> tgt ! 1 then Inl RuntimeError
      else if length src = 3 \<and> batch_first tr \<and> src ! 0 \<noteq> tgt ! 0 then Inl RuntimeError
      else if last src \<noteq> d_model tr \<or> last tgt \<noteq> d_model tr then Inl RuntimeError
      else Inr tgt)"

section \<open>The external collaborators\<close>

text \<open>
  Pretrained checkpoints, image files and audio files are outside the notebook. Each is
  a parameter: a tokenizer and an encoder are described by the configuration values
  that decide shapes, and the hub and the file system are lookup functions that may
  raise.
\<close>

subsection \<open>Text tokenizer\<close>

text \<open>
  \<^verbatim>\<open>num_wordpieces\<close> is the number of word pieces of a string before special tokens
  are added. With \<^verbatim>\<open>truncation=True\<close> and no \<^verbatim>\<open>max_length\<close> the tokenizer
  truncates to \<^verbatim>\<open>model_max_length\<close>: when the total (pieces plus special tokens) is
  over the limit it removes the excess from the pieces, provided the pieces are more
  than the excess; otherwise it only logs an error and truncates nothing.
\<close>

record tokenizer =
  model_max_length :: nat
  num_special_tokens :: nat
  num_wordpieces :: "string \<Rightarrow> nat"

definition encoded_length :: "tokenizer \<Rightarrow> string \<Rightarrow> nat" where
  "encoded_length tok s =
     (let n = num_wordpieces tok s;
          total = n + num_special_tokens tok;
          max_length = model_max_length tok
      in if max_length \<noteq> 0 \<and> max_length < total
         then (if total - max_length < n
               then (n - (total - max_length)) + num_special_tokens tok
               else total)
         else total)"

datatype text_input = Single string | Batch "string list"

text \<open>
  Calling the tokenizer with \<^verbatim>\<open>return_tensors="pt", padding=True\<close>: one row per
  string, padded to the longest row. A single string is a batch of one; an empty list
  raises \<^verbatim>\<open>ValueError\<close>.
\<close>

definition tokenizer_call :: "tokenizer \<Rightarrow> text_input \<Rightarrow> error + shape" where
  "tokenizer_call tok text =
     (case text of
        Single s \<Rightarrow> Inr [1, encoded_length tok s]
      | Batch ss \<Rightarrow>
          (if ss = [] then Inl ValueError
           else Inr [length ss, fold max (map (encoded_length tok) ss) 0]))"

subsection \<open>Encoders\<close>

text \<open>
  A pretrained encoder is used through \<^verbatim>\<open>config.hidden_size\<close> and
  \<^verbatim>\<open>last_hidden_state\<close>, whose shape is (batch, sequence length, hidden size).
  \<^verbatim>\<open>seq_len\<close> gives the sequence length for an input shape, or the exception the
  encoder raises on it. \<^verbatim>\<open>from_pretrained\<close> returns an encoder in evaluation mode;
  \<^verbatim>\<open>seq_len_train\<close> is the same for the encoder in training mode, and
  \<^verbatim>\<open>train_mode\<close> is the switch that \<^verbatim>\<open>train()\<close> makes.
\<close>

record encoder =
  hidden_size :: nat
  seq_len :: "shape \<Rightarrow> error + nat"
  seq_len_train :: "shape \<Rightarrow> error + nat"

definition train_mode :: "encoder \<Rightarrow> encoder" where
  "train_mode enc = enc\<lparr>seq_len := seq_len_train enc\<rparr>"

definition last_hidden_state :: "encoder \<Rightarrow> shape \<Rightarrow> error + shape" where
  "last_hidden_state enc s =
     (case s of
        [] \<Rightarrow> Inl RuntimeError
      | b # _ \<Rightarrow> (case seq_len enc s of Inl e \<Rightarrow> Inl e
                   | Inr l \<Rightarrow> Inr [b, l, hidden_size enc]))"

text \<open>
  \<^verbatim>\<open>BertModel\<close>: input ids of shape (batch, length); one output vector per token; a
  length above \<^verbatim>\<open>max_position_embeddings\<close> has no position embedding and raises.
\<close>

definition bert_tokens :: "nat \<Rightarrow> shape \<Rightarrow> error + nat" where
  "bert_tokens max_position_embeddings s =
     (if length s \<noteq> 2 then Inl ValueError
      else if max_position_embeddings < s ! 1 then Inl RuntimeError
      else Inr (s ! 1))"

definition BertModel :: "nat \<Rightarrow> nat \<Rightarrow> encoder" where
  "BertModel hidden max_position_embeddings =
     \<lparr>hidden_size = hidden,
      seq_len = bert_tokens max_position_embeddings,
      seq_len_train = bert_tokens max_position_embeddings\<rparr>"

text \<open>
  \<^verbatim>\<open>Wav2Vec2Model\<close>: a stack of one-dimensional convolutions over the waveform,
  given by \<^verbatim>\<open>conv_kernel\<close> and \<^verbatim>\<open>conv_stride\<close>; a convolution raises on an input
  shorter than its kernel. The group normalisation that follows the first convolution
  raises when it gets a single value per channel (batch size times length is one). In
  training mode the encoder masks spans of \<^verbatim>\<open>mask_time_length\<close> frames, 10 in the
  configuration, and raises when the sequence is shorter than one span.
\<close>

fun conv_out_length :: "nat \<Rightarrow> (nat \<times> nat) list \<Rightarrow> error + nat" where
  "conv_out_length l [] = Inr l"
| "conv_out_length l ((k, st) # layers) =
     (if l < k \<or> st = 0 then Inl RuntimeError
      else conv_out_length ((l - k) div st + 1) layers)"

definition wav2vec2_frames :: "(nat \<times> nat) list \<Rightarrow> shape \<Rightarrow> error + nat" where
  "wav2vec2_frames conv_layers s =
     (if length s \<noteq> 2 then Inl ValueError
      else case conv_layers of
             [] \<Rightarrow> Inr (s ! 1)
           | first_layer # rest \<Rightarrow>
               and_then (conv_out_length (s ! 1) [first_layer]) (\<lambda>l.
                 if s ! 0 * l = 1 then Inl ValueError else conv_out_length l rest))"

definition mask_time_length :: nat where
  "mask_time_length = 10"

definition Wav2Vec2Model :: "nat \<Rightarrow> (nat \<times> nat) list \<Rightarrow> encoder" where
  "Wav2Vec2Model hidden conv_layers =
     \<lparr>hidden_size = hidden,
      seq_len = wav2vec2_frames conv_layers,
      seq_len_train = (\<lambda>s. and_then (wav2vec2_frames conv_layers s) (\<lambda>l.
                              if l < mask_time_length then Inl ValueError else Inr l))\<rparr>"

text \<open>
  \<^verbatim>\<open>ViTModel\<close>: pixel values of shape (batch, channels, height, width) with the
  configured number of channels and image size; one output vector per patch and one
  for the class token.
\<close>

definition vit_tokens :: "nat \<Rightarrow> nat \<Rightarrow> nat \<Rightarrow> shape \<Rightarrow> error + nat" where
  "vit_tokens num_channels image_size patch_size s =
     (if length s \<noteq> 4 then Inl ValueError
      else if s ! 1 \<noteq> num_channels then Inl ValueError
      else if s ! 2 \<noteq> image_size \<or> s ! 3 \<noteq> image_size then Inl ValueError
      else Inr ((image_size div patch_size) * (image_size div patch_size) + 1))"

definition ViTModel :: "nat \<Rightarrow> nat \<Rightarrow> nat \<Rightarrow> nat \<Rightarrow> encoder" where
  "ViTModel hidden num_channels image_size patch_size =
     \<lparr>hidden_size = hidden,
      seq_len = vit_tokens num_channels image_size patch_size,
      seq_len_train = vit_tokens num_channels image_size patch_size\<rparr>"

subsection \<open>The hub and the file system\<close>

record hub =
  BertTokenizer_from_pretrained :: "string \<Rightarrow> error + tokenizer"
  BertModel_from_pretrained :: "string \<Rightarrow> error + encoder"
  ViTModel_from_pretrained :: "string \<Rightarrow> error + encoder"
  Wav2Vec2Tokenizer_from_pretrained :: "string \<Rightarrow> error + unit"
  Wav2Vec2Model_from_pretrained :: "string \<Rightarrow> error + encoder"

text \<open>
  An opened image has a number of bands (3 for RGB, 1 for greyscale, 4 for RGBA) and a
  size. \<^verbatim>\<open>librosa.load(path, sr=16000)\<close> returns a mono waveform; only its number of
  samples matters here, and it may be zero.
\<close>

record image =
  bands :: nat
  width :: nat
  height :: nat

record files =
  Image_open :: "string \<Rightarrow> error + image"
  librosa_load :: "string \<Rightarrow> error + nat"

section \<open>\<^verbatim>\<open>MultimodalTransformer\<close>\<close>

record model =
  text_tokenizer :: tokenizer
  text_model :: encoder
  image_model :: encoder
  audio_model :: encoder
  text_proj :: linear
  image_proj :: linear
  audio_proj :: linear
  transformer :: transformer_module
  classifier :: linear

text \<open>
  \<^verbatim>\<open>__init__\<close>, in the order of the source: the pretrained parts are loaded first, then
  the three projections, the fusion transformer and the ten-class head are built. Any
  exception leaves no model. The audio tokenizer is loaded like the rest, but it holds
  nothing that decides a shape, so the record does not keep it.
\<close>

definition init :: "hub \<Rightarrow> string \<Rightarrow> string \<Rightarrow> string \<Rightarrow> nat \<Rightarrow> nat \<Rightarrow> nat \<Rightarrow> error + model" where
  "init h text_model_name image_model_name audio_model_name hidden_dim n_heads n_layers =
     and_then (BertTokenizer_from_pretrained h text_model_name) (\<lambda>tt.
     and_then (BertModel_from_pretrained h text_model_name) (\<lambda>tm.
     and_then (ViTModel_from_pretrained h image_model_name) (\<lambda>im.
     and_then (Wav2Vec2Tokenizer_from_pretrained h audio_model_name) (\<lambda>audio_tok.
     and_then (Wav2Vec2Model_from_pretrained h audio_model_name) (\<lambda>am.
     and_then (nn_Transformer hidden_dim n_heads n_layers n_layers) (\<lambda>tr.
       Inr \<lparr>text_tokenizer = tt, text_model = tm, image_model = im, audio_model = am,
            text_proj = nn_Linear (hidden_size tm) hidden_dim,
            image_proj = nn_Linear (hidden_size im) hidden_dim,
            audio_proj = nn_Linear (hidden_size am) hidden_dim,
            transformer = tr,
            classifier = nn_Linear hidden_dim 10\<rparr>))))))"

text \<open>The defaults of the constructor: \<^verbatim>\<open>hidden_dim=768, n_heads=8, n_layers=6\<close>.\<close>

definition init_default :: "hub \<Rightarrow> string \<Rightarrow> string \<Rightarrow> string \<Rightarrow> error + model" where
  "init_default h text_model_name image_model_name audio_model_name =
     init h text_model_name image_model_name audio_model_name 768 8 6"

text \<open>\<^verbatim>\<open>model.train()\<close> puts every submodule in training mode.\<close>

definition train :: "model \<Rightarrow> model" where
  "train m = m\<lparr>text_model := train_mode (text_model m),
               image_model := train_mode (image_model m),
               audio_model := train_mode (audio_model m)\<rparr>"

subsection \<open>Preprocessing\<close>

text \<open>\<^verbatim>\<open>preprocess_text\<close> returns the input ids and the attention mask, of one shape.\<close>

definition preprocess_text :: "model \<Rightarrow> text_input \<Rightarrow> error + (shape \<times> shape)" where
  "preprocess_text m text =
     and_then (tokenizer_call (text_tokenizer m) text) (\<lambda>encoding.
       Inr (encoding, encoding))"

text \<open>
  \<^verbatim>\<open>image_transform\<close>: \<^verbatim>\<open>Resize((224, 224))\<close> fixes the size, \<^verbatim>\<open>ToTensor\<close> gives
  (bands, height, width), and \<^verbatim>\<open>Normalize\<close> with three means subtracts in place,
  which raises unless there are three bands.
\<close>

definition image_transform :: "image \<Rightarrow> error + shape" where
  "image_transform img =
     (let resized = img\<lparr>width := 224, height := 224\<rparr>;
          tensor = [bands resized, height resized, width resized]
      in if bands resized \<noteq> 3 then Inl RuntimeError else Inr tensor)"

definition preprocess_image :: "files \<Rightarrow> string \<Rightarrow> error + shape" where
  "preprocess_image fs image_path =
     and_then (Image_open fs image_path) (\<lambda>img.
     and_then (image_transform img) (\<lambda>t. Inr (unsqueeze0 t)))"

text \<open>
  \<^verbatim>\<open>preprocess_audio\<close>: the waveform is loaded and handed to the audio tokenizer, which
  wraps the one waveform into a batch of one. Nothing here looks at the number of
  samples.
\<close>

definition preprocess_audio :: "files \<Rightarrow> string \<Rightarrow> error + shape" where
  "preprocess_audio fs audio_path =
     and_then (librosa_load fs audio_path) (\<lambda>n. Inr [1, n])"

subsection \<open>\<^verbatim>\<open>forward\<close>\<close>

text \<open>
  \<^verbatim>\<open>forward\<close> in three stages. \<^verbatim>\<open>projected\<close> is the source down to the three
  projections: preprocess each input, encode each, project each. Up to here only
  shapes are followed.
\<close>

definition projected :: "files \<Rightarrow> model \<Rightarrow> text_input \<Rightarrow> string \<Rightarrow> string \<Rightarrow> error + (shape \<times> shape \<times> shape)" where
  "projected fs m text image_path audio_path =
     and_then (preprocess_text m text) (\<lambda>(text_input_ids, text_attention_mask).
     and_then (preprocess_image fs image_path) (\<lambda>image_input.
     and_then (preprocess_audio fs audio_path) (\<lambda>audio_input.
     and_then (last_hidden_state (text_model m) text_input_ids) (\<lambda>text_features.
     and_then (last_hidden_state (image_model m) image_input) (\<lambda>image_features.
     and_then (last_hidden_state (audio_model m) audio_input) (\<lambda>audio_features.
     and_then (linear_forward (text_proj m) text_features) (\<lambda>tp.
     and_then (linear_forward (image_proj m) image_features) (\<lambda>ip.
     and_then (linear_forward (audio_proj m) audio_features) (\<lambda>ap.
       Inr (tp, ip, ap))))))))))"

text \<open>
  From here on the question is also which vector sits where, so a tensor carries,
  beside its shape, its contents along dimension 1: one entry per index \<open>j\<close>, standing
  for the slice \<^verbatim>\<open>x[:, j, :]\<close>. The numbers in a slice are not modelled; a slice is
  named after the computation that produced it.
\<close>

datatype modality = TextM | ImageM | AudioM

datatype vec =
    Projected modality nat
  | Fused "vec list" nat
  | Logits vec

text \<open>
  \<^verbatim>\<open>Projected md j\<close> is position \<open>j\<close> of the projected features of a modality,
  \<^verbatim>\<open>Fused xs j\<close> is position \<open>j\<close> of what the transformer returns for the sequence
  \<open>xs\<close> given as source and target, and \<^verbatim>\<open>Logits v\<close> is the classifier applied to
  \<open>v\<close>.
\<close>

record tensor =
  dims :: shape
  slices :: "vec list"

definition projected_tensor :: "modality \<Rightarrow> shape \<Rightarrow> tensor" where
  "projected_tensor md s =
     \<lparr>dims = s,
      slices = map (Projected md) [0..<(if length s < 2 then 0 else s ! 1)]\<rparr>"

text \<open>
  \<^verbatim>\<open>torch.cat(tensors, dim=1)\<close> on tensors with contents: the shapes combine as
  before, and the slices follow one another in the order of the operands.
\<close>

definition cat_dim1 :: "tensor list \<Rightarrow> error + tensor" where
  "cat_dim1 ts =
     and_then (torch_cat (map dims ts) 1) (\<lambda>s.
       Inr \<lparr>dims = s, slices = concat (map slices ts)\<rparr>)"

text \<open>The transformer called with one tensor as source and target.\<close>

definition transformer_call :: "transformer_module \<Rightarrow> tensor \<Rightarrow> error + tensor" where
  "transformer_call tr x =
     and_then (transformer_forward tr (dims x) (dims x)) (\<lambda>s.
       Inr \<lparr>dims = s, slices = map (Fused (slices x)) [0..<length (slices x)]\<rparr>)"

text \<open>\<^verbatim>\<open>x[:, 0, :]\<close>: the shape loses dimension 1, and the contents are the first slice.\<close>

definition select_first :: "tensor \<Rightarrow> error + (shape \<times> vec)" where
  "select_first x =
     and_then (index_first (dims x)) (\<lambda>s.
       case slices x of [] \<Rightarrow> Inl IndexError | v # rest \<Rightarrow> Inr (s, v))"

text \<open>
  \<^verbatim>\<open>fuse\<close> is the concatenation of the text, image and audio projections along
  dimension 1 and the transformer called with the concatenation as both source and
  target.
\<close>

definition fuse :: "model \<Rightarrow> tensor \<Rightarrow> tensor \<Rightarrow> tensor \<Rightarrow> error + tensor" where
  "fuse m tp ip ap =
     and_then (cat_dim1 [tp, ip, ap]) (\<lambda>multimodal_features.
       transformer_call (transformer m) multimodal_features)"

text \<open>
  \<^verbatim>\<open>classify\<close> is the last line: the classifier on \<^verbatim>\<open>fused_features[:, 0, :]\<close>. It
  returns the shape of the logits and what they were computed from.
\<close>

definition classify :: "model \<Rightarrow> tensor \<Rightarrow> error + (shape \<times> vec)" where
  "classify m fused_features =
     and_then (select_first fused_features) (\<lambda>(s, v).
     and_then (linear_forward (classifier m) s) (\<lambda>logits.
       Inr (logits, Logits v)))"

definition fused_tensor :: "files \<Rightarrow> model \<Rightarrow> text_input \<Rightarrow> string \<Rightarrow> string \<Rightarrow> error + tensor" where
  "fused_tensor fs m text image_path audio_path =
     and_then (projected fs m text image_path audio_path) (\<lambda>(tp, ip, ap).
       fuse m (projected_tensor TextM tp) (projected_tensor ImageM ip) (projected_tensor AudioM ap))"

definition forward_logits :: "files \<Rightarrow> model \<Rightarrow> text_input \<Rightarrow> string \<Rightarrow> string \<Rightarrow> error + (shape \<times> vec)" where
  "forward_logits fs m text image_path audio_path =
     and_then (fused_tensor fs m text image_path audio_path) (\<lambda>fused.
       classify m fused)"

text \<open>
  The shape of the fused features and the shape of the logits that \<^verbatim>\<open>forward\<close>
  returns.
\<close>

definition fused_features :: "files \<Rightarrow> model \<Rightarrow> text_input \<Rightarrow> string \<Rightarrow> string \<Rightarrow> error + shape" where
  "fused_features fs m text image_path audio_path =
     and_then (fused_tensor fs m text image_path audio_path) (\<lambda>fused. Inr (dims fused))"

definition forward :: "files \<Rightarrow> model \<Rightarrow> text_input \<Rightarrow> string \<Rightarrow> string \<Rightarrow> error + shape" where
  "forward fs m text image_path audio_path =
     and_then (forward_logits fs m text image_path audio_path) (\<lambda>(logits, v). Inr logits)"

subsection \<open>A concrete environment\<close>

text \<open>
  The configuration values of the three checkpoints the notebook names
  (\<^verbatim>\<open>bert-base-uncased\<close>, \<^verbatim>\<open>google/vit-base-patch16-224\<close>,
  \<^verbatim>\<open>facebook/wav2vec2-base-960h\<close>), an RGB image and one second of audio. The word
  piece count is a stand-in: one piece per word, a word being a run of characters
  other than the space, which is what the vocabulary gives for short common words.
  They serve to run the definitions on an input.
\<close>

fun count_words :: "string \<Rightarrow> nat" where
  "count_words [] = 0"
| "count_words [c] = (if c = CHR '' '' then 0 else 1)"
| "count_words (c # d # s) =
     (if c \<noteq> CHR '' '' \<and> d = CHR '' '' then 1 else 0) + count_words (d # s)"

definition example_tokenizer :: tokenizer where
  "example_tokenizer =
     \<lparr>model_max_length = 512, num_special_tokens = 2, num_wordpieces = count_words\<rparr>"

text \<open>A text of 600 words, and a tokenizer whose checkpoint sets no maximum length.\<close>

definition long_text :: string where
  "long_text = concat (replicate 600 ''a '')"

definition unbounded_tokenizer :: tokenizer where
  "unbounded_tokenizer = example_tokenizer\<lparr>model_max_length := 10 ^ 30\<rparr>"

definition example_hub :: hub where
  "example_hub =
     \<lparr>BertTokenizer_from_pretrained = (\<lambda>_. Inr example_tokenizer),
      BertModel_from_pretrained = (\<lambda>_. Inr (BertModel 768 512)),
      ViTModel_from_pretrained = (\<lambda>_. Inr (ViTModel 768 3 224 16)),
      Wav2Vec2Tokenizer_from_pretrained = (\<lambda>_. Inr ()),
      Wav2Vec2Model_from_pretrained =
        (\<lambda>_. Inr (Wav2Vec2Model 768 [(10, 5), (3, 2), (3, 2), (3, 2), (3, 2), (2, 2), (2, 2)]))\<rparr>"

definition example_model :: model where
  "example_model =
     \<lparr>text_tokenizer = example_tokenizer,
      text_model = BertModel 768 512,
      image_model = ViTModel 768 3 224 16,
      audio_model = Wav2Vec2Model 768 [(10, 5), (3, 2), (3, 2), (3, 2), (3, 2), (2, 2), (2, 2)],
      text_proj = nn_Linear 768 768,
      image_proj = nn_Linear 768 768,
      audio_proj = nn_Linear 768 768,
      transformer = \<lparr>d_model = 768, nhead = 8, num_encoder_layers = 6,
                      num_decoder_layers = 6, batch_first = False\<rparr>,
      classifier = nn_Linear 768 10\<rparr>"

definition example_files :: files where
  "example_files =
     \<lparr>Image_open = (\<lambda>_. Inr \<lparr>bands = 3, width = 640, height = 480\<rparr>),
      librosa_load = (\<lambda>_. Inr 16000)\<rparr>"

text \<open>The same files, except that the audio file holds no samples.\<close>

definition silent_files :: files where
  "silent_files = example_files\<lparr>librosa_load := (\<lambda>_. Inr 0)\<rparr>"

text \<open>The same model, with the tokenizer that has no maximum length.\<close>

definition unbounded_model :: model where
  "unbounded_model = example_model\<lparr>text_tokenizer := unbounded_tokenizer\<rparr>"

section \<open>Hyperparameter search\<close>

subsection \<open>Objective values\<close>

text \<open>
  \<^verbatim>\<open>loss.item()\<close> is a Python float: a number, an infinity or NaN. Only the order of
  objective values is used, and comparing floats is exact, so a finite float is
  represented by the real number it denotes. Every comparison with NaN is false.
\<close>

datatype pyfloat = NaN | NegInf | Fin real | PosInf

fun float_less :: "pyfloat \<Rightarrow> pyfloat \<Rightarrow> bool" where
  "float_less NaN _ = False"
| "float_less _ NaN = False"
| "float_less _ NegInf = False"
| "float_less NegInf _ = True"
| "float_less PosInf _ = False"
| "float_less (Fin x) (Fin y) = (x < y)"
| "float_less (Fin x) PosInf = True"

subsection \<open>Trials and the study\<close>

datatype trial_state = COMPLETE | FAIL | PRUNED

record frozen_trial =
  number :: nat
  state :: trial_state
  trial_value :: "pyfloat option"
  params :: "(string \<times> real) list"

text \<open>
  The study keeps its trials in the order they ran and, as the in-memory storage does,
  the number of the best trial so far. The sampler is the source of randomness: the
  value it draws for a trial number, a parameter name and the bounds.
\<close>

record study =
  trials :: "frozen_trial list"
  best_trial_id :: "nat option"
  sampler :: "nat \<Rightarrow> string \<Rightarrow> real \<Rightarrow> real \<Rightarrow> real"

definition create_study :: "(nat \<Rightarrow> string \<Rightarrow> real \<Rightarrow> real \<Rightarrow> real) \<Rightarrow> study" where
  "create_study smp = \<lparr>trials = [], best_trial_id = None, sampler = smp\<rparr>"

text \<open>The trial object handed to the objective function.\<close>

record trial =
  trial_id :: nat
  suggested :: "(string \<times> real) list"
  draw :: "string \<Rightarrow> real \<Rightarrow> real \<Rightarrow> real"

text \<open>
  \<^verbatim>\<open>trial.suggest_loguniform(name, low, high)\<close>: the bounds must form a log-uniform
  range (\<^verbatim>\<open>low \<le> high\<close>, \<^verbatim>\<open>low > 0\<close>); a name suggested before in this trial keeps
  its value; otherwise the sampler draws one and the trial records it.
\<close>

definition suggest_loguniform :: "trial \<Rightarrow> string \<Rightarrow> real \<Rightarrow> real \<Rightarrow> error + (real \<times> trial)" where
  "suggest_loguniform t name low high =
     (if high < low \<or> low \<le> 0 then Inl ValueError
      else case map_of (suggested t) name of
             Some v \<Rightarrow> Inr (v, t)
           | None \<Rightarrow> (let v = draw t name low high
                      in Inr (v, t\<lparr>suggested := suggested t @ [(name, v)]\<rparr>)))"

subsection \<open>The objective function of the notebook\<close>

text \<open>
  What the training step needs from outside: the hub, the files, and the float that
  \<^verbatim>\<open>loss.item()\<close> yields in a given trial (the arithmetic of the loss is not
  modelled).
\<close>

record world =
  pretrained :: hub
  disk :: files
  loss_item :: "nat \<Rightarrow> pyfloat"

text \<open>
  \<^verbatim>\<open>optim.AdamW(params, lr, weight_decay)\<close> rejects a negative learning rate or weight
  decay. \<^verbatim>\<open>nn.CrossEntropyLoss\<close> on logits of shape (N, C) needs targets of shape (N).
\<close>

definition AdamW :: "real \<Rightarrow> real \<Rightarrow> error + (real \<times> real)" where
  "AdamW lr weight_decay =
     (if lr < 0 then Inl ValueError
      else if weight_decay < 0 then Inl ValueError
      else Inr (lr, weight_decay))"

definition CrossEntropyLoss :: "shape \<Rightarrow> shape \<Rightarrow> error + unit" where
  "CrossEntropyLoss logits labels =
     (if length logits = 2 \<and> labels = [logits ! 0] \<and> 0 < logits ! 1 then Inr ()
      else Inl ValueError)"

text \<open>
  A class that can be called with three checkpoint names, and the global names of the
  Python session that are bound to such a class. Reading a name that is not bound
  raises \<^verbatim>\<open>NameError\<close>.
\<close>

type_synonym model_class = "string \<Rightarrow> string \<Rightarrow> string \<Rightarrow> error + model"

definition lookup_name :: "(string \<Rightarrow> model_class option) \<Rightarrow> string \<Rightarrow> error + model_class" where
  "lookup_name globals name = (case globals name of None \<Rightarrow> Inl NameError | Some cls \<Rightarrow> Inr cls)"

text \<open>
  \<^verbatim>\<open>objective(trial)\<close>. It returns the trial, which has recorded the suggestions made
  before any exception, and either the exception or the loss. The model and the
  optimizer are made inside the call and dropped when it returns. \<^verbatim>\<open>model.train()\<close>
  puts the encoders in training mode before the forward pass; \<^verbatim>\<open>zero_grad()\<close>,
  \<^verbatim>\<open>backward()\<close> and \<^verbatim>\<open>step()\<close> change only those two objects and no shape, so
  they leave no trace here.
\<close>

definition objective :: "world \<Rightarrow> (string \<Rightarrow> model_class option) \<Rightarrow> trial \<Rightarrow> trial \<times> (error + pyfloat)" where
  "objective w globals t =
     (case suggest_loguniform t ''lr'' (1 / 100000) (1 / 1000) of
        Inl e \<Rightarrow> (t, Inl e)
      | Inr (learning_rate, t1) \<Rightarrow>
     (case suggest_loguniform t1 ''weight_decay'' (1 / 1000000) (1 / 100) of
        Inl e \<Rightarrow> (t1, Inl e)
      | Inr (weight_decay, t2) \<Rightarrow>
        (t2,
         and_then (lookup_name globals ''MultimodalTransformerTuner'') (\<lambda>cls.
         and_then (cls ''bert-base-uncased'' ''google/vit-base-patch16-224''
                       ''facebook/wav2vec2-base-960h'') (\<lambda>m.
         and_then (AdamW learning_rate weight_decay) (\<lambda>optimizer.
         and_then (forward (disk w) (train m) (Single ''This is an example text input.'')
                       ''example_image.jpg'' ''example_audio.wav'') (\<lambda>logits.
         and_then (CrossEntropyLoss logits [1]) (\<lambda>loss.
           Inr (loss_item w (trial_id t))))))))))"

text \<open>
  The names bound to a model class once the cells of the notebook have run in order:
  the first cell defines \<^verbatim>\<open>MultimodalTransformer\<close>, and no cell defines any other.
\<close>

definition notebook_globals :: "world \<Rightarrow> string \<Rightarrow> model_class option" where
  "notebook_globals w name =
     (if name = ''MultimodalTransformer'' then Some (init_default (pretrained w)) else None)"

subsection \<open>\<^verbatim>\<open>study.optimize\<close> and \<^verbatim>\<open>study.best_params\<close>\<close>

definition ask :: "study \<Rightarrow> trial" where
  "ask st = \<lparr>trial_id = length (trials st), suggested = [],
             draw = sampler st (length (trials st))\<rparr>"

text \<open>
  Storing a finished trial. The best trial changes only for a completed trial, and
  only when there was none or the new value is strictly below the best value
  (direction \<^verbatim>\<open>minimize\<close>).
\<close>

definition update_cache :: "study \<Rightarrow> frozen_trial \<Rightarrow> nat option" where
  "update_cache st ft =
     (if state ft \<noteq> COMPLETE then best_trial_id st
      else case best_trial_id st of
             None \<Rightarrow> Some (number ft)
           | Some b \<Rightarrow>
               (if b < length (trials st) then
                  (case (trial_value (trials st ! b), trial_value ft) of
                     (Some best_value, Some new_value) \<Rightarrow>
                       (if float_less new_value best_value then Some (number ft) else Some b)
                   | (None, _) \<Rightarrow> Some (number ft)
                   | (Some _, None) \<Rightarrow> Some b)
                else Some (number ft)))"

definition tell :: "study \<Rightarrow> frozen_trial \<Rightarrow> study" where
  "tell st ft = st\<lparr>trials := trials st @ [ft], best_trial_id := update_cache st ft\<rparr>"

text \<open>
  One trial of \<^verbatim>\<open>optimize\<close>, called without \<^verbatim>\<open>catch\<close>: a returned NaN makes the
  trial \<^verbatim>\<open>FAIL\<close> and the search goes on; \<^verbatim>\<open>TrialPruned\<close> makes it \<^verbatim>\<open>PRUNED\<close>; any
  other exception makes it \<^verbatim>\<open>FAIL\<close> and is raised again out of \<^verbatim>\<open>optimize\<close>.
\<close>

definition run_trial :: "(trial \<Rightarrow> trial \<times> (error + pyfloat)) \<Rightarrow> study \<Rightarrow> study \<times> error option" where
  "run_trial func st =
     (let (t, outcome) = func (ask st);
          frozen = (\<lambda>s v. \<lparr>number = length (trials st), state = s, trial_value = v,
                           params = suggested t\<rparr>)
      in case outcome of
           Inr v \<Rightarrow> (if v = NaN then (tell st (frozen FAIL None), None)
                     else (tell st (frozen COMPLETE (Some v)), None))
         | Inl e \<Rightarrow> (if e = TrialPruned then (tell st (frozen PRUNED None), None)
                     else (tell st (frozen FAIL None), Some e)))"

fun optimize :: "(trial \<Rightarrow> trial \<times> (error + pyfloat)) \<Rightarrow> nat \<Rightarrow> study \<Rightarrow> study \<times> error option" where
  "optimize func 0 st = (st, None)"
| "optimize func (Suc n) st =
     (case run_trial func st of
        (st', Some e) \<Rightarrow> (st', Some e)
      | (st', None) \<Rightarrow> optimize func n st')"

text \<open>\<^verbatim>\<open>study.best_params\<close>: with no completed trial it raises \<^verbatim>\<open>ValueError\<close>.\<close>

definition best_params :: "study \<Rightarrow> error + (string \<times> real) list" where
  "best_params st =
     (case best_trial_id st of
        None \<Rightarrow> Inl ValueError
      | Some b \<Rightarrow> (if b < length (trials st) then Inr (params (trials st ! b))
                   else Inl ValueError))"

text \<open>
  Trial \<open>i\<close> seen from outside the loop: the trial object the objective function is
  called with, what the call returns, and the assignment it has suggested by then.
\<close>

definition trial_at :: "(nat \<Rightarrow> string \<Rightarrow> real \<Rightarrow> real \<Rightarrow> real) \<Rightarrow> nat \<Rightarrow> trial" where
  "trial_at smp i = \<lparr>trial_id = i, suggested = [], draw = smp i\<rparr>"

definition returned :: "(trial \<Rightarrow> trial \<times> (error + pyfloat)) \<Rightarrow> (nat \<Rightarrow> string \<Rightarrow> real \<Rightarrow> real \<Rightarrow> real) \<Rightarrow> nat \<Rightarrow> error + pyfloat" where
  "returned func smp i = snd (func (trial_at smp i))"

definition assignment :: "(trial \<Rightarrow> trial \<times> (error + pyfloat)) \<Rightarrow> (nat \<Rightarrow> string \<Rightarrow> real \<Rightarrow> real \<Rightarrow> real) \<Rightarrow> nat \<Rightarrow> (string \<times> real) list" where
  "assignment func smp i = suggested (fst (func (trial_at smp i)))"

text \<open>
  The record of trial \<open>i\<close>: completed with its value when the objective function
  returned a float other than NaN, pruned on \<^verbatim>\<open>TrialPruned\<close>, failed otherwise.
\<close>

definition record_of :: "(trial \<Rightarrow> trial \<times> (error + pyfloat)) \<Rightarrow> (nat \<Rightarrow> string \<Rightarrow> real \<Rightarrow> real \<Rightarrow> real) \<Rightarrow> nat \<Rightarrow> frozen_trial" where
  "record_of func smp i =
     \<lparr>number = i,
      state = (case returned func smp i of
                 Inr v \<Rightarrow> (if v = NaN then FAIL else COMPLETE)
               | Inl e \<Rightarrow> (if e = TrialPruned then PRUNED else FAIL)),
      trial_value = (case returned func smp i of
                       Inr v \<Rightarrow> (if v = NaN then None else Some v)
                     | Inl e \<Rightarrow> None),
      params = assignment func smp i\<rparr>"

text \<open>
  The specification's description of the best record, in its words: a completed trial
  of minimum objective value, ties broken by the earliest trial index. A value \<open>v\<close> is
  not below \<open>vb\<close> when \<^verbatim>\<open>v < vb\<close> is false.
\<close>

definition earliest_minimum :: "frozen_trial list \<Rightarrow> frozen_trial \<Rightarrow> bool" where
  "earliest_minimum ts b =
     (b \<in> set ts \<and> state b = COMPLETE \<and>
      (\<exists>vb. trial_value b = Some vb \<and> vb \<noteq> NaN \<and>
         (\<forall>t\<in>set ts. state t = COMPLETE \<longrightarrow>
            (\<exists>v. trial_value t = Some v \<and> v \<noteq> NaN \<and> \<not> float_less v vb \<and>
                 (number t < number b \<longrightarrow> float_less vb v)))))"

text \<open>The last lines of the tuning cell: ten trials, then the best parameters.\<close>

definition tune :: "world \<Rightarrow> (string \<Rightarrow> model_class option) \<Rightarrow> (nat \<Rightarrow> string \<Rightarrow> real \<Rightarrow> real \<Rightarrow> real) \<Rightarrow> error + (string \<times> real) list" where
  "tune w globals smp =
     (case optimize (objective w globals) 10 (create_study smp) of
        (st, Some e) \<Rightarrow> Inl e
      | (st, None) \<Rightarrow> best_params st)"

text \<open>
  What holds of a study between two trials: trial numbers are positions, a completed
  trial carries a value other than NaN, and the stored best trial, when there is one,
  is the earliest minimum of the completed trials.
\<close>

definition study_ok :: "study \<Rightarrow> bool" where
  "study_ok st =
     ((\<forall>i<length (trials st). number (trials st ! i) = i) \<and>
      (\<forall>t\<in>set (trials st). state t = COMPLETE \<longrightarrow> (\<exists>v. trial_value t = Some v \<and> v \<noteq> NaN)) \<and>
      (case best_trial_id st of
         None \<Rightarrow> (\<forall>t\<in>set (trials st). state t \<noteq> COMPLETE)
       | Some b \<Rightarrow> b < length (trials st) \<and> earliest_minimum (trials st) (trials st ! b)))"

subsection \<open>The sampler\<close>


subsection \<open>Concrete searches\<close>

text \<open>
  To run the search on an input: a sampler that alternates between the two bounds, an
  objective function that suggests \<^verbatim>\<open>lr\<close> as the notebook does and then follows a
  script of outcomes, one per trial, and a world with the concrete hub and files.
\<close>

definition example_sampler :: "nat \<Rightarrow> string \<Rightarrow> real \<Rightarrow> real \<Rightarrow> real" where
  "example_sampler n name low high = (if even n then low else high)"

definition scripted :: "(error + pyfloat) list \<Rightarrow> trial \<Rightarrow> trial \<times> (error + pyfloat)" where
  "scripted outcomes t =
     (case suggest_loguniform t ''lr'' (1 / 100000) (1 / 1000) of
        Inl e \<Rightarrow> (t, Inl e)
      | Inr (learning_rate, t1) \<Rightarrow>
          (t1, if trial_id t < length outcomes then outcomes ! trial_id t else Inl IndexError))"

definition example_world :: world where
  "example_world =
     \<lparr>pretrained = example_hub, disk = example_files,
      loss_item = (\<lambda>n. Fin (1 / real (Suc n)))\<rparr>"

section \<open>Shapes through the pipeline\<close>

lemma and_then_Inl [simp]: "and_then (Inl e) f = Inl e"
  by (simp add: and_then_def)

lemma and_then_Inr [simp]: "and_then (Inr x) f = f x"
  by (simp add: and_then_def)

lemma and_then_eq_Inr: "and_then r f = Inr y \<longleftrightarrow> (\<exists>x. r = Inr x \<and> f x = Inr y)"
  by (cases r) simp_all

lemma linear_forward_3: "linear_forward (nn_Linear i out) [b, l, i] = Inr [b, l, out]"
  by (simp add: linear_forward_def nn_Linear_def)

lemma linear_forward_Inr:
  "linear_forward (nn_Linear i out) [b, l, w] = Inr s \<Longrightarrow> s = [b, l, out]"
  by (simp add: linear_forward_def nn_Linear_def split: if_splits)

lemma div_mult_self_iff: "((a::nat) div b) * b = a \<longleftrightarrow> a mod b = 0"
proof
  assume "a div b * b = a"
  moreover have "a div b * b + a mod b = a" by (rule div_mult_mod_eq)
  ultimately show "a mod b = 0" by arith
next
  assume "a mod b = 0"
  then show "a div b * b = a" using div_mult_mod_eq[of a b] by simp
qed

lemma cat2_dim1:
  "cat2 (Suc 0) [b, l, h] [b', l', h'] = (if b = b' \<and> h = h' then Inr [b, l + l', h] else Inl RuntimeError)"
  by (simp add: cat2_def)

lemma torch_cat_three:
  "torch_cat [[bt, lt, ht], [bi, li, hi], [ba, la, ha]] (Suc 0) =
     (if bt = bi \<and> bi = ba \<and> ht = hi \<and> hi = ha then Inr [bt, lt + li + la, ht] else Inl RuntimeError)"
  by (simp add: torch_cat_def cat2_dim1)

lemma transformer_forward_same:
  "transformer_forward tr [b, l, h] [b, l, h] = (if h = d_model tr then Inr [b, l, h] else Inl RuntimeError)"
  by (simp add: transformer_forward_def)

lemma init_Inr:
  assumes "init h tn imn an hidden_dim n_heads n_layers = Inr m"
  shows "text_proj m = nn_Linear (hidden_size (text_model m)) hidden_dim"
    and "image_proj m = nn_Linear (hidden_size (image_model m)) hidden_dim"
    and "audio_proj m = nn_Linear (hidden_size (audio_model m)) hidden_dim"
    and "classifier m = nn_Linear hidden_dim 10"
    and "d_model (transformer m) = hidden_dim"
    and "0 < hidden_dim" and "0 < n_heads" and "hidden_dim mod n_heads = 0"
  using assms
  by (auto simp: init_def nn_Transformer_def div_mult_self_iff and_then_eq_Inr split: if_splits)

lemma projected_tensor_3:
  "projected_tensor md [b, l, h] = \<lparr>dims = [b, l, h], slices = map (Projected md) [0..<l]\<rparr>"
  by (simp add: projected_tensor_def)

lemma fuse_projected:
  "fuse m (projected_tensor TextM [bt, lt, ht]) (projected_tensor ImageM [bi, li, hi])
          (projected_tensor AudioM [ba, la, ha]) =
     (if bt = bi \<and> bi = ba \<and> ht = hi \<and> hi = ha \<and> ha = d_model (transformer m)
      then Inr \<lparr>dims = [bt, lt + li + la, ht],
                slices = map (Fused (map (Projected TextM) [0..<lt] @ map (Projected ImageM) [0..<li]
                                      @ map (Projected AudioM) [0..<la]))
                             [0..<lt + li + la]\<rparr>
      else Inl RuntimeError)"
  by (simp add: fuse_def cat_dim1_def transformer_call_def projected_tensor_3 torch_cat_three
        transformer_forward_same add.assoc)


lemma last_hidden_state_Inr:
  "last_hidden_state enc s = Inr f \<Longrightarrow>
     \<exists>b rest l. s = b # rest \<and> seq_len enc s = Inr l \<and> f = [b, l, hidden_size enc]"
  by (auto simp: last_hidden_state_def split: list.splits sum.splits)

lemma preprocess_image_Inr: "preprocess_image fs p = Inr s \<Longrightarrow> s = [1, 3, 224, 224]"
  by (auto simp: preprocess_image_def image_transform_def unsqueeze0_def Let_def and_then_eq_Inr
           split: if_splits)

lemma preprocess_audio_Inr:
  "preprocess_audio fs p = Inr s \<Longrightarrow> \<exists>n. librosa_load fs p = Inr n \<and> s = [1, n]"
  by (auto simp: preprocess_audio_def and_then_eq_Inr)

lemma preprocess_text_Inr:
  "preprocess_text m text = Inr (ids, msk) \<Longrightarrow>
     msk = ids \<and> tokenizer_call (text_tokenizer m) text = Inr ids"
  by (auto simp: preprocess_text_def and_then_eq_Inr)

lemma tokenizer_call_Inr:
  "tokenizer_call tok text = Inr ids \<Longrightarrow> \<exists>b Lt. ids = [b, Lt] \<and> 0 < b"
  by (auto simp: tokenizer_call_def split: text_input.splits if_splits)

lemma projected_shapes:
  assumes i: "init h tn imn an hidden_dim n_heads n_layers = Inr m"
      and p: "projected fs m text image_path audio_path = Inr (tp, ip, ap)"
  shows "\<exists>bt Lt0 Lt Li La.
           preprocess_text m text = Inr ([bt, Lt0], [bt, Lt0]) \<and>
           seq_len (text_model m) [bt, Lt0] = Inr Lt \<and>
           seq_len (image_model m) [1, 3, 224, 224] = Inr Li \<and>
           (\<exists>n. librosa_load fs audio_path = Inr n \<and> seq_len (audio_model m) [1, n] = Inr La) \<and>
           tp = [bt, Lt, hidden_dim] \<and> ip = [1, Li, hidden_dim] \<and> ap = [1, La, hidden_dim]"
proof -
  from p obtain ids msk ii ai tf imf af where
        pt: "preprocess_text m text = Inr (ids, msk)"
    and pi: "preprocess_image fs image_path = Inr ii"
    and pa: "preprocess_audio fs audio_path = Inr ai"
    and tf: "last_hidden_state (text_model m) ids = Inr tf"
    and imf: "last_hidden_state (image_model m) ii = Inr imf"
    and af: "last_hidden_state (audio_model m) ai = Inr af"
    and tp: "linear_forward (text_proj m) tf = Inr tp"
    and ip: "linear_forward (image_proj m) imf = Inr ip"
    and ap: "linear_forward (audio_proj m) af = Inr ap"
    by (auto simp: projected_def and_then_eq_Inr)
  from preprocess_text_Inr[OF pt] tokenizer_call_Inr obtain bt Lt0 where
    ids: "ids = [bt, Lt0]" "msk = [bt, Lt0]" by blast
  from pi have ii: "ii = [1, 3, 224, 224]" by (rule preprocess_image_Inr)
  from pa obtain n where n: "librosa_load fs audio_path = Inr n" "ai = [1, n]"
    using preprocess_audio_Inr by blast
  from tf ids obtain Lt where t: "seq_len (text_model m) [bt, Lt0] = Inr Lt"
      "tf = [bt, Lt, hidden_size (text_model m)]"
    using last_hidden_state_Inr by fastforce
  from imf ii obtain Li where im: "seq_len (image_model m) [1, 3, 224, 224] = Inr Li"
      "imf = [1, Li, hidden_size (image_model m)]"
    using last_hidden_state_Inr by fastforce
  from af n obtain La where a: "seq_len (audio_model m) [1, n] = Inr La"
      "af = [1, La, hidden_size (audio_model m)]"
    using last_hidden_state_Inr by fastforce
  from tp t(2) have "tp = [bt, Lt, hidden_dim]"
    by (simp add: init_Inr(1)[OF i] linear_forward_3)
  moreover from ip im(2) have "ip = [1, Li, hidden_dim]"
    by (simp add: init_Inr(2)[OF i] linear_forward_3)
  moreover from ap a(2) have "ap = [1, La, hidden_dim]"
    by (simp add: init_Inr(3)[OF i] linear_forward_3)
  ultimately show ?thesis using pt ids t im a n by blast
qed

lemma select_first_Inr:
  assumes "select_first x = Inr (s, v)"
  shows "index_first (dims x) = Inr s \<and> (\<exists>rest. slices x = v # rest)"
proof (cases "slices x")
  case Nil
  with assms show ?thesis by (simp add: select_first_def and_then_eq_Inr)
next
  case (Cons a rest)
  with assms show ?thesis by (simp add: select_first_def and_then_eq_Inr)
qed

lemma classify_Inr:
  assumes "classify m x = Inr (logits, v)"
  shows "\<exists>s v0 rest. index_first (dims x) = Inr s \<and> slices x = v0 # rest
            \<and> linear_forward (classifier m) s = Inr logits \<and> v = Logits v0"
proof -
  from assms obtain s v0 where sf: "select_first x = Inr (s, v0)"
      and l: "linear_forward (classifier m) s = Inr logits" and v: "v = Logits v0"
    by (auto simp: classify_def and_then_eq_Inr)
  from select_first_Inr[OF sf] l v show ?thesis by blast
qed

lemma classify_first:
  assumes "classifier m = nn_Linear h c"
  shows "classify m \<lparr>dims = [b, Suc L, h], slices = v # vs\<rparr> = Inr ([b, c], Logits v)"
  using assms
  by (simp add: classify_def select_first_def index_first_def linear_forward_def nn_Linear_def)

text \<open>What \<^verbatim>\<open>forward\<close> computes, for a model built by the constructor.\<close>

lemma fused_tensor_Inr:
  assumes i: "init h tn imn an hidden_dim n_heads n_layers = Inr m"
      and f: "fused_tensor fs m text image_path audio_path = Inr fused"
  shows "\<exists>Lt Li La. projected fs m text image_path audio_path
                       = Inr ([1, Lt, hidden_dim], [1, Li, hidden_dim], [1, La, hidden_dim])
           \<and> fused = \<lparr>dims = [1, Lt + Li + La, hidden_dim],
                      slices = map (Fused (map (Projected TextM) [0..<Lt]
                                           @ map (Projected ImageM) [0..<Li]
                                           @ map (Projected AudioM) [0..<La]))
                                   [0..<Lt + Li + La]\<rparr>"
proof -
  from f obtain tp ip ap where p: "projected fs m text image_path audio_path = Inr (tp, ip, ap)"
      and fu: "fuse m (projected_tensor TextM tp) (projected_tensor ImageM ip)
                      (projected_tensor AudioM ap) = Inr fused"
    by (auto simp: fused_tensor_def and_then_eq_Inr)
  from projected_shapes[OF i p] obtain bt Lt Li La where
      sh: "tp = [bt, Lt, hidden_dim]" "ip = [1, Li, hidden_dim]" "ap = [1, La, hidden_dim]"
    by blast
  from fu have "bt = 1"
    unfolding sh fuse_projected by (simp split: if_splits)
  with fu p sh show ?thesis
    unfolding sh fuse_projected by (auto split: if_splits)
qed

text \<open>
  Claim C1. In a model built by the constructor, whenever the three branches produce
  projected sequences of lengths \<open>Lt\<close>, \<open>Li\<close> and \<open>La\<close>, each of width
  \<^verbatim>\<open>hidden_dim\<close>, the fused features that the transformer returns have the shape
  (batch, \<open>Lt + Li + La\<close>, \<^verbatim>\<open>hidden_dim\<close>): the sequence length is the sum of the three
  lengths and the width is \<^verbatim>\<open>hidden_dim\<close>.
\<close>

theorem fused_sequence_shape:
  assumes "init h tn imn an hidden_dim n_heads n_layers = Inr m"
      and "projected fs m text image_path audio_path =
             Inr ([b, Lt, hidden_dim], [b, Li, hidden_dim], [b, La, hidden_dim])"
  shows "fused_features fs m text image_path audio_path = Inr [b, Lt + Li + La, hidden_dim]"
  using assms(2)
  by (simp add: fused_features_def fused_tensor_def fuse_projected init_Inr(5)[OF assms(1)])

text \<open>
  Claim C9. Whenever \<^verbatim>\<open>forward\<close> returns logits, the image tensor had the shape
  (1, 3, 224, 224), with the batch dimension of size one that \<^verbatim>\<open>unsqueeze(0)\<close>
  prepends, the audio tensor had batch size one, the text input ids had batch size one,
  and the logits are those of one example. A text batch of another size makes the
  concatenation raise, so \<^verbatim>\<open>forward\<close> serves single examples only.
\<close>

theorem forward_single_example:
  assumes i: "init h tn imn an hidden_dim n_heads n_layers = Inr m"
      and f: "forward fs m text image_path audio_path = Inr logits"
  shows "preprocess_image fs image_path = Inr [1, 3, 224, 224]
       \<and> (\<exists>n. preprocess_audio fs audio_path = Inr [1, n])
       \<and> (\<exists>Lt. preprocess_text m text = Inr ([1, Lt], [1, Lt]))
       \<and> logits = [1, 10]"
proof -
  from f obtain fused v where fu: "fused_tensor fs m text image_path audio_path = Inr fused"
      and cl: "classify m fused = Inr (logits, v)"
    by (auto simp: forward_def forward_logits_def and_then_eq_Inr)
  from fused_tensor_Inr[OF i fu] obtain Lt Li La where
      p: "projected fs m text image_path audio_path
            = Inr ([1, Lt, hidden_dim], [1, Li, hidden_dim], [1, La, hidden_dim])"
      and fused: "dims fused = [1, Lt + Li + La, hidden_dim]"
    by auto
  from projected_shapes[OF i p] obtain bt Lt0 n where
      t: "preprocess_text m text = Inr ([bt, Lt0], [bt, Lt0])"
      and n: "librosa_load fs audio_path = Inr n"
      and bt: "[1, Lt, hidden_dim] = [bt, Lt, hidden_dim]"
    by auto
  have pi: "preprocess_image fs image_path = Inr [1, 3, 224, 224]"
    using p preprocess_image_Inr by (auto simp: projected_def and_then_eq_Inr)
  have pa: "preprocess_audio fs audio_path = Inr [1, n]"
    using n by (simp add: preprocess_audio_def)
  have pt: "\<exists>Lt. preprocess_text m text = Inr ([1, Lt], [1, Lt])"
    using t bt by auto
  from classify_Inr[OF cl] obtain s where s: "index_first (dims fused) = Inr s"
      and l: "linear_forward (classifier m) s = Inr logits"
    by blast
  from s fused have "s = [1, hidden_dim]"
    by (simp add: index_first_def split: if_splits)
  with l have "logits = [1, 10]"
    by (simp add: linear_forward_def init_Inr(4)[OF i] nn_Linear_def split: if_splits)
  with pi pa pt show ?thesis by blast
qed

lemma example_init: "init example_hub tn imn an 768 8 6 = Inr example_model"
  by (simp add: init_def example_hub_def example_model_def nn_Transformer_def BertModel_def
        ViTModel_def Wav2Vec2Model_def)

lemma example_text: "preprocess_text example_model (Single ''hi'') = Inr ([1, 3], [1, 3])"
  by (simp add: preprocess_text_def tokenizer_call_def encoded_length_def example_model_def
        example_tokenizer_def Let_def)

lemma example_image: "preprocess_image example_files p = Inr [1, 3, 224, 224]"
  by (simp add: preprocess_image_def example_files_def image_transform_def unsqueeze0_def)

lemma example_audio_frames:
  "seq_len (audio_model example_model) [Suc 0, 16000] = Inr 49"
  by (simp add: example_model_def Wav2Vec2Model_def wav2vec2_frames_def)

lemma example_image_tokens:
  "seq_len (image_model example_model) [b, 3, 224, 224] = Inr 197"
  by (simp add: example_model_def ViTModel_def vit_tokens_def)

lemma example_text_tokens:
  "Lt \<le> 512 \<Longrightarrow> seq_len (text_model example_model) [b, Lt] = Inr Lt"
  by (simp add: example_model_def BertModel_def bert_tokens_def)

lemma example_projections:
  "text_proj example_model = nn_Linear 768 768" "image_proj example_model = nn_Linear 768 768"
  "audio_proj example_model = nn_Linear 768 768" "hidden_size (text_model example_model) = 768"
  "hidden_size (image_model example_model) = 768" "hidden_size (audio_model example_model) = 768"
  by (simp_all add: example_model_def BertModel_def ViTModel_def Wav2Vec2Model_def)

lemma example_projected:
  "projected example_files example_model (Single ''hi'') ''a.jpg'' ''a.wav''
     = Inr ([1, 3, 768], [1, 197, 768], [1, 49, 768])"
proof -
  have a: "preprocess_audio example_files ''a.wav'' = Inr [1, 16000]"
    by (simp add: preprocess_audio_def example_files_def)
  show ?thesis
    by (simp add: projected_def example_text example_image a last_hidden_state_def
          example_text_tokens example_image_tokens example_audio_frames example_projections
          linear_forward_3)
qed

text \<open>
  The hypotheses of C1 hold in the concrete environment, with lengths 3, 197 and 49.
\<close>

theorem fused_sequence_shape_witness:
  "init example_hub ''t'' ''i'' ''a'' 768 8 6 = Inr example_model
   \<and> projected example_files example_model (Single ''hi'') ''a.jpg'' ''a.wav''
       = Inr ([1, 3, 768], [1, 197, 768], [1, 49, 768])
   \<and> fused_features example_files example_model (Single ''hi'') ''a.jpg'' ''a.wav''
       = Inr [1, 3 + 197 + 49, 768]"
  using fused_sequence_shape[OF example_init example_projected]
        example_init example_projected
  by simp

lemma example_forward_logits:
  "forward_logits example_files example_model (Single ''hi'') ''a.jpg'' ''a.wav'' =
     Inr ([1, 10],
          Logits (Fused (map (Projected TextM) [0..<3] @ map (Projected ImageM) [0..<197]
                         @ map (Projected AudioM) [0..<49]) 0))"
proof -
  have d: "d_model (transformer example_model) = 768" and c: "classifier example_model = nn_Linear 768 10"
    by (simp_all add: example_model_def)
  have u: "[0..<249] = 0 # [1..<249]" by (simp add: upt_conv_Cons)
  show ?thesis
    by (simp add: forward_logits_def fused_tensor_def example_projected fuse_projected d
          classify_first[OF c, of 1 248, simplified] u)
qed

lemma example_forward:
  "forward example_files example_model (Single ''hi'') ''a.jpg'' ''a.wav'' = Inr [1, 10]"
  by (simp add: forward_def example_forward_logits)

text \<open>
  The hypotheses of C9 hold in the concrete environment for a single string.
\<close>

theorem forward_single_example_witness:
  "init example_hub ''t'' ''i'' ''a'' 768 8 6 = Inr example_model
   \<and> forward example_files example_model (Single ''hi'') ''a.jpg'' ''a.wav'' = Inr [1, 10]
   \<and> preprocess_image example_files ''a.jpg'' = Inr [1, 3, 224, 224]
   \<and> (\<exists>n. preprocess_audio example_files ''a.wav'' = Inr [1, n])
   \<and> (\<exists>Lt. preprocess_text example_model (Single ''hi'') = Inr ([1, Lt], [1, Lt]))"
  using forward_single_example[OF example_init example_forward] example_init example_forward
  by blast

text \<open>A list of two strings is a batch of two, and the concatenation raises.\<close>

lemma batch_of_two_fails:
  "forward example_files example_model (Batch [''hi'', ''you'']) ''a.jpg'' ''a.wav'' = Inl RuntimeError"
proof -
  have t: "preprocess_text example_model (Batch [''hi'', ''you'']) = Inr ([2, 3], [2, 3])"
    by (simp add: preprocess_text_def tokenizer_call_def encoded_length_def example_model_def
          example_tokenizer_def Let_def)
  have a: "preprocess_audio example_files ''a.wav'' = Inr [1, 16000]"
    by (simp add: preprocess_audio_def example_files_def)
  have p: "projected example_files example_model (Batch [''hi'', ''you'']) ''a.jpg'' ''a.wav''
             = Inr ([2, 3, 768], [1, 197, 768], [1, 49, 768])"
    by (simp add: projected_def t example_image a last_hidden_state_def
          example_text_tokens example_image_tokens example_audio_frames example_projections
          linear_forward_3)
  show ?thesis
    by (simp add: forward_def forward_logits_def fused_tensor_def p fuse_projected)
qed


subsection \<open>The classification head\<close>

text \<open>The sequence that enters the transformer, in the order of the concatenation.\<close>

lemma map_upt_hd:
  "0 < n \<Longrightarrow> map f [0..<n] = f 0 # map f [1..<n]"
  by (simp add: upt_conv_Cons)

lemma fused_inputs_hd:
  "0 < Lt \<Longrightarrow>
     hd (map (Projected TextM) [0..<Lt] @ map (Projected ImageM) [0..<Li]
         @ map (Projected AudioM) [0..<La]) = Projected TextM 0"
  by (simp add: map_upt_hd)

lemma fuse_first_slice:
  assumes d: "d_model (transformer m) = h" and n: "0 < Lt + Li + La"
  shows "\<exists>rest. fuse m (projected_tensor TextM [b, Lt, h]) (projected_tensor ImageM [b, Li, h])
                       (projected_tensor AudioM [b, La, h])
           = Inr \<lparr>dims = [b, Lt + Li + La, h],
                  slices = Fused (map (Projected TextM) [0..<Lt] @ map (Projected ImageM) [0..<Li]
                                  @ map (Projected AudioM) [0..<La]) 0 # rest\<rparr>"
  using d by (simp add: fuse_projected map_upt_hd[OF n])

text \<open>
  Claim C5. In a model built by the constructor, for fused features of any batch size
  and any non-empty sequence, \<^verbatim>\<open>classify\<close> reads the slice at index 0 of the
  sequence dimension, applies the classifier to it and returns logits of length 10,
  the class count the constructor fixes, whatever the sequence length. The fused
  features that \<^verbatim>\<open>fuse\<close> returns have at index 0 the output of the transformer at
  position 0 of its input, and that input is the concatenation in the order text,
  image, audio, so its position 0 is position 0 of the projected text sequence when
  the text sequence is not empty. For \<^verbatim>\<open>forward\<close> as a whole: the logits have the
  shape (1, 10) and are the classifier applied to that slice.
\<close>

theorem classify_first_position:
  assumes i: "init h tn imn an hidden_dim n_heads n_layers = Inr m"
  shows "(\<forall>b L v vs. 0 < L \<longrightarrow>
            classify m \<lparr>dims = [b, L, hidden_dim], slices = v # vs\<rparr> = Inr ([b, 10], Logits v))
       \<and> (\<forall>b Lt Li La. 0 < Lt \<longrightarrow>
            (\<exists>inputs rest.
               fuse m (projected_tensor TextM [b, Lt, hidden_dim])
                      (projected_tensor ImageM [b, Li, hidden_dim])
                      (projected_tensor AudioM [b, La, hidden_dim])
                 = Inr \<lparr>dims = [b, Lt + Li + La, hidden_dim], slices = Fused inputs 0 # rest\<rparr>
               \<and> inputs = map (Projected TextM) [0..<Lt] @ map (Projected ImageM) [0..<Li]
                            @ map (Projected AudioM) [0..<La]
               \<and> hd inputs = Projected TextM 0))
       \<and> (\<forall>fs text image_path audio_path logits v.
            forward_logits fs m text image_path audio_path = Inr (logits, v) \<longrightarrow>
              logits = [1, 10]
            \<and> (\<exists>Lt Li La.
                  projected fs m text image_path audio_path
                    = Inr ([1, Lt, hidden_dim], [1, Li, hidden_dim], [1, La, hidden_dim])
                \<and> v = Logits (Fused (map (Projected TextM) [0..<Lt] @ map (Projected ImageM) [0..<Li]
                                      @ map (Projected AudioM) [0..<La]) 0)))"
proof (intro conjI allI impI)
  fix b L :: nat and v vs
  assume "0 < L"
  then obtain L' where "L = Suc L'" by (cases L) simp_all
  then show "classify m \<lparr>dims = [b, L, hidden_dim], slices = v # vs\<rparr> = Inr ([b, 10], Logits v)"
    using classify_first[OF init_Inr(4)[OF i]] by simp
next
  fix b Lt Li La :: nat
  assume lt: "0 < Lt"
  then have n: "0 < Lt + Li + La" by simp
  from fuse_first_slice[OF init_Inr(5)[OF i] n] fused_inputs_hd[OF lt]
  show "\<exists>inputs rest.
               fuse m (projected_tensor TextM [b, Lt, hidden_dim])
                      (projected_tensor ImageM [b, Li, hidden_dim])
                      (projected_tensor AudioM [b, La, hidden_dim])
                 = Inr \<lparr>dims = [b, Lt + Li + La, hidden_dim], slices = Fused inputs 0 # rest\<rparr>
               \<and> inputs = map (Projected TextM) [0..<Lt] @ map (Projected ImageM) [0..<Li]
                            @ map (Projected AudioM) [0..<La]
               \<and> hd inputs = Projected TextM 0"
    by blast
next
  fix fs tx image_path audio_path logits v
  assume f: "forward_logits fs m tx image_path audio_path = Inr (logits, v)"
  then obtain fused where fu: "fused_tensor fs m tx image_path audio_path = Inr fused"
      and cl: "classify m fused = Inr (logits, v)"
    by (auto simp: forward_logits_def and_then_eq_Inr)
  from fused_tensor_Inr[OF i fu] obtain Lt Li La where
      p: "projected fs m tx image_path audio_path
            = Inr ([1, Lt, hidden_dim], [1, Li, hidden_dim], [1, La, hidden_dim])"
      and d: "dims fused = [1, Lt + Li + La, hidden_dim]"
      and sl: "slices fused = map (Fused (map (Projected TextM) [0..<Lt]
                                           @ map (Projected ImageM) [0..<Li]
                                           @ map (Projected AudioM) [0..<La]))
                                   [0..<Lt + Li + La]"
    by auto
  from classify_Inr[OF cl] obtain s v0 rest where s: "index_first (dims fused) = Inr s"
      and v0: "slices fused = v0 # rest" and v: "v = Logits v0"
      and l: "linear_forward (classifier m) s = Inr logits"
    by blast
  from s d have s2: "s = [1, hidden_dim]" and n: "0 < Lt + Li + La"
    by (simp_all add: index_first_def split: if_splits)
  from l s2 show "logits = [1, 10]"
    by (simp add: linear_forward_def init_Inr(4)[OF i] nn_Linear_def split: if_splits)
  from v0 sl have "v0 = Fused (map (Projected TextM) [0..<Lt] @ map (Projected ImageM) [0..<Li]
                                @ map (Projected AudioM) [0..<La]) 0"
    by (simp add: map_upt_hd[OF n])
  with v p show "\<exists>Lt Li La.
                  projected fs m tx image_path audio_path
                    = Inr ([1, Lt, hidden_dim], [1, Li, hidden_dim], [1, La, hidden_dim])
                \<and> v = Logits (Fused (map (Projected TextM) [0..<Lt] @ map (Projected ImageM) [0..<Li]
                                      @ map (Projected AudioM) [0..<La]) 0)"
    by blast
qed

text \<open>
  C5 in the concrete environment: a fused tensor of two positions, the fusion of a
  two-token text with one image and one audio position, and the whole of
  \<^verbatim>\<open>forward\<close>.
\<close>

theorem classify_first_position_witness:
  "init example_hub ''t'' ''i'' ''a'' 768 8 6 = Inr example_model
   \<and> classify example_model \<lparr>dims = [1, 2, 768], slices = [Projected TextM 0, Projected ImageM 0]\<rparr>
       = Inr ([1, 10], Logits (Projected TextM 0))
   \<and> fuse example_model (projected_tensor TextM [1, 2, 768]) (projected_tensor ImageM [1, 1, 768])
          (projected_tensor AudioM [1, 1, 768])
       = Inr \<lparr>dims = [1, 4, 768],
              slices = map (Fused [Projected TextM 0, Projected TextM 1, Projected ImageM 0,
                                   Projected AudioM 0]) [0, 1, 2, 3]\<rparr>
   \<and> forward_logits example_files example_model (Single ''hi'') ''a.jpg'' ''a.wav'' =
       Inr ([1, 10],
            Logits (Fused (map (Projected TextM) [0..<3] @ map (Projected ImageM) [0..<197]
                           @ map (Projected AudioM) [0..<49]) 0))"
proof -
  note t = classify_first_position[OF example_init]
  have l: "(0::nat) < 2" by simp
  from t l have c: "classify example_model \<lparr>dims = [1, 2, 768], slices = [Projected TextM 0, Projected ImageM 0]\<rparr>
       = Inr ([1, 10], Logits (Projected TextM 0))"
    by blast
  have u: "[0..<4] = [0, 1, 2, 3]" "[0..<2] = [0, 1]" "[0..<1] = [0]"
    by (simp_all add: upt_conv_Cons)
  have d: "d_model (transformer example_model) = 768" by (simp add: example_model_def)
  have f: "fuse example_model (projected_tensor TextM [1, 2, 768]) (projected_tensor ImageM [1, 1, 768])
          (projected_tensor AudioM [1, 1, 768])
       = Inr \<lparr>dims = [1, 4, 768],
              slices = map (Fused [Projected TextM 0, Projected TextM 1, Projected ImageM 0,
                                   Projected AudioM 0]) [0, 1, 2, 3]\<rparr>"
    by (simp add: fuse_projected d u)
  from example_init c f example_forward_logits show ?thesis by blast
qed


subsection \<open>Construction\<close>

lemma init_transformer_error:
  assumes "nn_Transformer hidden_dim n_heads n_layers n_layers = Inl e"
  shows "\<exists>e'. init h tn imn an hidden_dim n_heads n_layers = Inl e'"
proof (cases "init h tn imn an hidden_dim n_heads n_layers")
  case (Inl e')
  then show ?thesis by blast
next
  case (Inr m)
  then have "\<exists>tr. nn_Transformer hidden_dim n_heads n_layers n_layers = Inr tr"
    by (auto simp: init_def and_then_eq_Inr)
  with assms show ?thesis by simp
qed

lemma init_loaded_transformer_error:
  assumes "nn_Transformer hidden_dim n_heads n_layers n_layers = Inl e"
      and "BertTokenizer_from_pretrained h tn = Inr tt" and "BertModel_from_pretrained h tn = Inr tm"
      and "ViTModel_from_pretrained h imn = Inr im"
      and "Wav2Vec2Tokenizer_from_pretrained h an = Inr u"
      and "Wav2Vec2Model_from_pretrained h an = Inr am"
  shows "init h tn imn an hidden_dim n_heads n_layers = Inl e"
  using assms by (simp add: init_def)

lemma objective_constructor_error:
  assumes "globals ''MultimodalTransformerTuner'' = Some cls"
      and "cls ''bert-base-uncased'' ''google/vit-base-patch16-224''
               ''facebook/wav2vec2-base-960h'' = Inl e"
  shows "snd (objective w globals t) = Inl e"
  using assms
  by (simp add: objective_def suggest_loguniform_def lookup_name_def Let_def
           split: option.splits)

text \<open>
  Claim C7 says that construction succeeds whenever \<^verbatim>\<open>hidden_dim % n_heads == 0\<close>. A
  width of zero is divisible by eight heads, yet the fusion transformer rejects it and
  the constructor returns no model.
\<close>

theorem zero_width_counterexample:
  "(0::nat) mod 8 = 0
   \<and> nn_Transformer 0 8 6 6 = Inl ValueError
   \<and> init example_hub ''bert-base-uncased'' ''google/vit-base-patch16-224''
        ''facebook/wav2vec2-base-960h'' 0 8 6 = Inl ValueError"
  by (simp add: nn_Transformer_def init_def example_hub_def)

text \<open>
  Claim C7, amended. Building the fusion transformer, which happens inside the
  constructor of the model, raises \<^verbatim>\<open>ValueError\<close> when \<^verbatim>\<open>hidden_dim\<close> or
  \<^verbatim>\<open>n_heads\<close> is zero, raises the assertion error of the attention layer when both are
  positive and \<^verbatim>\<open>n_heads\<close> does not divide \<^verbatim>\<open>hidden_dim\<close>, and succeeds when both are
  positive and \<^verbatim>\<open>n_heads\<close> divides \<^verbatim>\<open>hidden_dim\<close>. Whenever it raises, the constructor
  returns no model, so no \<^verbatim>\<open>forward\<close> can run, and it raises that very exception
  when the pretrained parts have loaded. The exception appears where the constructor
  is called; an objective function that calls a failing constructor raises its
  exception, inside the trial.
\<close>

theorem heads_must_divide_width:
  "(hidden_dim = 0 \<or> n_heads = 0 \<longrightarrow>
      nn_Transformer hidden_dim n_heads n_layers n_layers = Inl ValueError)
   \<and> (0 < hidden_dim \<and> 0 < n_heads \<and> hidden_dim mod n_heads \<noteq> 0 \<longrightarrow>
      nn_Transformer hidden_dim n_heads n_layers n_layers = Inl AssertionError)
   \<and> (0 < hidden_dim \<and> 0 < n_heads \<and> hidden_dim mod n_heads = 0 \<longrightarrow>
      nn_Transformer hidden_dim n_heads n_layers n_layers =
        Inr \<lparr>d_model = hidden_dim, nhead = n_heads, num_encoder_layers = n_layers,
             num_decoder_layers = n_layers, batch_first = False\<rparr>)
   \<and> (\<forall>e. nn_Transformer hidden_dim n_heads n_layers n_layers = Inl e \<longrightarrow>
          (\<exists>e'. init h tn imn an hidden_dim n_heads n_layers = Inl e'))
   \<and> (\<forall>e tt tm im u am.
          nn_Transformer hidden_dim n_heads n_layers n_layers = Inl e
        \<and> BertTokenizer_from_pretrained h tn = Inr tt \<and> BertModel_from_pretrained h tn = Inr tm
        \<and> ViTModel_from_pretrained h imn = Inr im
        \<and> Wav2Vec2Tokenizer_from_pretrained h an = Inr u
        \<and> Wav2Vec2Model_from_pretrained h an = Inr am
        \<longrightarrow> init h tn imn an hidden_dim n_heads n_layers = Inl e)
   \<and> (\<forall>w globals t cls e.
          globals ''MultimodalTransformerTuner'' = Some cls
        \<and> cls ''bert-base-uncased'' ''google/vit-base-patch16-224''
               ''facebook/wav2vec2-base-960h'' = Inl e
        \<longrightarrow> snd (objective w globals t) = Inl e)"
proof (intro conjI allI impI)
  assume "hidden_dim = 0 \<or> n_heads = 0"
  then show "nn_Transformer hidden_dim n_heads n_layers n_layers = Inl ValueError"
    by (auto simp: nn_Transformer_def)
next
  assume "0 < hidden_dim \<and> 0 < n_heads \<and> hidden_dim mod n_heads \<noteq> 0"
  then show "nn_Transformer hidden_dim n_heads n_layers n_layers = Inl AssertionError"
    by (simp add: nn_Transformer_def div_mult_self_iff)
next
  assume "0 < hidden_dim \<and> 0 < n_heads \<and> hidden_dim mod n_heads = 0"
  then show "nn_Transformer hidden_dim n_heads n_layers n_layers =
        Inr \<lparr>d_model = hidden_dim, nhead = n_heads, num_encoder_layers = n_layers,
             num_decoder_layers = n_layers, batch_first = False\<rparr>"
    by (simp add: nn_Transformer_def div_mult_self_iff)
next
  fix e assume "nn_Transformer hidden_dim n_heads n_layers n_layers = Inl e"
  then show "\<exists>e'. init h tn imn an hidden_dim n_heads n_layers = Inl e'"
    by (rule init_transformer_error)
next
  fix e tt tm im u am
  assume "nn_Transformer hidden_dim n_heads n_layers n_layers = Inl e
        \<and> BertTokenizer_from_pretrained h tn = Inr tt \<and> BertModel_from_pretrained h tn = Inr tm
        \<and> ViTModel_from_pretrained h imn = Inr im
        \<and> Wav2Vec2Tokenizer_from_pretrained h an = Inr u
        \<and> Wav2Vec2Model_from_pretrained h an = Inr am"
  then show "init h tn imn an hidden_dim n_heads n_layers = Inl e"
    using init_loaded_transformer_error by blast
next
  fix w globals t and cls :: model_class and e :: error
  assume "globals ''MultimodalTransformerTuner'' = Some cls
        \<and> cls ''bert-base-uncased'' ''google/vit-base-patch16-224''
               ''facebook/wav2vec2-base-960h'' = Inl e"
  then show "snd (objective w globals t) = Inl e"
    using objective_constructor_error[of globals cls e w t] by simp
qed

text \<open>
  The amended C7 at width 768 with 7 heads (rejected by the assertion), with 8 heads
  (accepted), and with no head (rejected as a value).
\<close>

theorem heads_must_divide_width_witness:
  "(0::nat) < 768 \<and> (0::nat) < 7 \<and> (768::nat) mod 7 \<noteq> 0 \<and> (768::nat) mod 8 = 0
   \<and> nn_Transformer 768 7 6 6 = Inl AssertionError
   \<and> init example_hub ''t'' ''i'' ''a'' 768 7 6 = Inl AssertionError
   \<and> nn_Transformer 768 8 6 6 =
       Inr \<lparr>d_model = 768, nhead = 8, num_encoder_layers = 6, num_decoder_layers = 6,
            batch_first = False\<rparr>
   \<and> nn_Transformer 768 0 6 6 = Inl ValueError"
proof -
  have p: "(0::nat) < 768 \<and> (0::nat) < 7 \<and> (768::nat) mod 7 \<noteq> 0" by simp
  have q: "(0::nat) < 768 \<and> (0::nat) < 8 \<and> (768::nat) mod 8 = 0" by simp
  have z: "(768::nat) = 0 \<or> (0::nat) = 0" by simp
  note t7 = heads_must_divide_width[of 768 7 6 example_hub "''t''" "''i''" "''a''"]
  note t8 = heads_must_divide_width[of 768 8 6 example_hub "''t''" "''i''" "''a''"]
  note t0 = heads_must_divide_width[of 768 0 6 example_hub "''t''" "''i''" "''a''"]
  from t7 p have a: "nn_Transformer 768 7 6 6 = Inl AssertionError" by blast
  have l: "BertTokenizer_from_pretrained example_hub ''t'' = Inr example_tokenizer
        \<and> BertModel_from_pretrained example_hub ''t'' = Inr (BertModel 768 512)
        \<and> ViTModel_from_pretrained example_hub ''i'' = Inr (ViTModel 768 3 224 16)
        \<and> Wav2Vec2Tokenizer_from_pretrained example_hub ''a'' = Inr ()
        \<and> Wav2Vec2Model_from_pretrained example_hub ''a''
            = Inr (Wav2Vec2Model 768 [(10, 5), (3, 2), (3, 2), (3, 2), (3, 2), (2, 2), (2, 2)])"
    by (simp add: example_hub_def)
  from t7 a l have i: "init example_hub ''t'' ''i'' ''a'' 768 7 6 = Inl AssertionError" by blast
  from t8 q have b: "nn_Transformer 768 8 6 6 =
       Inr \<lparr>d_model = 768, nhead = 8, num_encoder_layers = 6, num_decoder_layers = 6,
            batch_first = False\<rparr>" by blast
  from t0 z have c: "nn_Transformer 768 0 6 6 = Inl ValueError" by blast
  from p q a i b c show ?thesis by simp
qed


subsection \<open>Text length\<close>

lemma encoded_length_le:
  "num_special_tokens tok < model_max_length tok \<Longrightarrow> encoded_length tok s \<le> model_max_length tok"
  by (auto simp: encoded_length_def Let_def)

lemma fold_max_le: "(\<forall>x\<in>set xs. x \<le> m) \<Longrightarrow> a \<le> m \<Longrightarrow> fold max xs a \<le> (m::nat)"
  by (induction xs arbitrary: a) auto

lemma tokenizer_call_bounded:
  assumes "num_special_tokens tok < model_max_length tok" and "tokenizer_call tok tx = Inr ids"
  shows "\<exists>b Lt. ids = [b, Lt] \<and> Lt \<le> model_max_length tok"
proof (cases tx)
  case (Single s)
  with assms(2) show ?thesis
    using encoded_length_le[OF assms(1)] by (auto simp: tokenizer_call_def)
next
  case (Batch ss)
  have "fold max (map (encoded_length tok) ss) 0 \<le> model_max_length tok"
    by (rule fold_max_le) (auto simp: encoded_length_le[OF assms(1)])
  with Batch assms(2) show ?thesis by (auto simp: tokenizer_call_def split: if_splits)
qed

lemma tokenizer_call_nonempty:
  "tx \<noteq> Batch [] \<Longrightarrow> \<exists>ids. tokenizer_call tok tx = Inr ids"
  by (cases tx) (auto simp: tokenizer_call_def)

lemma BertModel_accepts:
  "Lt \<le> P \<Longrightarrow> last_hidden_state (BertModel hidden P) [b, Lt] = Inr [b, Lt, hidden]"
  by (simp add: last_hidden_state_def BertModel_def bert_tokens_def)

lemma count_words_space: "count_words (CHR '' '' # s) = count_words s"
  by (cases s) simp_all

lemma count_words_a: "count_words (CHR ''a'' # CHR '' '' # s) = Suc (count_words s)"
  by (simp add: count_words_space)

lemma count_words_replicate: "count_words (concat (replicate n ''a '')) = n"
  by (induction n) (simp_all add: count_words_space)

lemma count_words_long_text: "count_words long_text = 600"
  by (simp add: long_text_def count_words_replicate)

text \<open>
  Claim C10 says that truncation keeps \<^verbatim>\<open>forward\<close> from failing on long text. With a
  checkpoint whose tokenizer sets no maximum length, which the constructor accepts, a
  text of 600 words is tokenized to 602 ids and the text encoder, with its 512
  positions, raises.
\<close>

theorem long_text_counterexample:
  "init (example_hub\<lparr>BertTokenizer_from_pretrained := (\<lambda>name. Inr unbounded_tokenizer)\<rparr>)
        ''bert-base-uncased'' ''google/vit-base-patch16-224'' ''facebook/wav2vec2-base-960h''
        768 8 6 = Inr unbounded_model
   \<and> preprocess_text unbounded_model (Single long_text) = Inr ([1, 602], [1, 602])
   \<and> forward example_files unbounded_model (Single long_text)
        ''example_image.jpg'' ''example_audio.wav'' = Inl RuntimeError"
proof -
  have i: "init (example_hub\<lparr>BertTokenizer_from_pretrained := (\<lambda>name. Inr unbounded_tokenizer)\<rparr>)
        ''bert-base-uncased'' ''google/vit-base-patch16-224'' ''facebook/wav2vec2-base-960h''
        768 8 6 = Inr unbounded_model"
    by (simp add: init_def example_hub_def unbounded_model_def example_model_def
          nn_Transformer_def BertModel_def ViTModel_def Wav2Vec2Model_def)
  have t: "preprocess_text unbounded_model (Single long_text) = Inr ([1, 602], [1, 602])"
    by (simp add: preprocess_text_def tokenizer_call_def encoded_length_def unbounded_model_def
          unbounded_tokenizer_def example_tokenizer_def count_words_long_text Let_def)
  have a: "preprocess_audio example_files ''example_audio.wav'' = Inr [1, 16000]"
    by (simp add: preprocess_audio_def example_files_def)
  have e: "last_hidden_state (text_model unbounded_model) [Suc 0, 602] = Inl RuntimeError"
    by (simp add: last_hidden_state_def unbounded_model_def example_model_def BertModel_def
          bert_tokens_def)
  have "projected example_files unbounded_model (Single long_text)
          ''example_image.jpg'' ''example_audio.wav'' = Inl RuntimeError"
    by (simp add: projected_def t example_image a e)
  then have "forward example_files unbounded_model (Single long_text)
        ''example_image.jpg'' ''example_audio.wav'' = Inl RuntimeError"
    by (simp add: forward_def forward_logits_def fused_tensor_def)
  with i t show ?thesis by simp
qed

text \<open>
  Claim C10, amended. Text preprocessing tokenizes with truncation: an empty list of
  strings raises \<^verbatim>\<open>ValueError\<close>, every other text is tokenized, and when the
  tokenizer's \<^verbatim>\<open>model_max_length\<close> exceeds its number of special tokens the
  sequence length of the input ids is at most \<^verbatim>\<open>model_max_length\<close>, however long the
  text. When, moreover, the text encoder is a BERT model with at least
  \<^verbatim>\<open>model_max_length\<close> position embeddings, it accepts the input ids, so the text
  branch of \<^verbatim>\<open>forward\<close> does not fail on long text.
\<close>

theorem text_truncated_to_max_length:
  "preprocess_text m (Batch []) = Inl ValueError
   \<and> (tx \<noteq> Batch [] \<longrightarrow> (\<exists>ids. preprocess_text m tx = Inr (ids, ids)))
   \<and> (\<forall>ids msk. preprocess_text m tx = Inr (ids, msk)
          \<and> num_special_tokens (text_tokenizer m) < model_max_length (text_tokenizer m)
        \<longrightarrow> (\<exists>b Lt. ids = [b, Lt] \<and> msk = ids \<and> Lt \<le> model_max_length (text_tokenizer m)
               \<and> (\<forall>hidden P. text_model m = BertModel hidden P
                      \<and> model_max_length (text_tokenizer m) \<le> P
                    \<longrightarrow> last_hidden_state (text_model m) ids = Inr [b, Lt, hidden])))"
proof (intro conjI allI impI)
  show "preprocess_text m (Batch []) = Inl ValueError"
    by (simp add: preprocess_text_def tokenizer_call_def)
next
  assume "tx \<noteq> Batch []"
  from tokenizer_call_nonempty[OF this] show "\<exists>ids. preprocess_text m tx = Inr (ids, ids)"
    by (auto simp: preprocess_text_def and_then_eq_Inr)
next
  fix ids msk
  assume a: "preprocess_text m tx = Inr (ids, msk)
          \<and> num_special_tokens (text_tokenizer m) < model_max_length (text_tokenizer m)"
  then have m: "msk = ids" and c: "tokenizer_call (text_tokenizer m) tx = Inr ids"
    using preprocess_text_Inr by blast+
  from tokenizer_call_bounded[OF _ c] a obtain b Lt where
    s: "ids = [b, Lt]" "Lt \<le> model_max_length (text_tokenizer m)" by blast
  have "\<forall>hidden P. text_model m = BertModel hidden P
                      \<and> model_max_length (text_tokenizer m) \<le> P
                    \<longrightarrow> last_hidden_state (text_model m) ids = Inr [b, Lt, hidden]"
    using s BertModel_accepts by (metis le_trans)
  with s m show "\<exists>b Lt. ids = [b, Lt] \<and> msk = ids \<and> Lt \<le> model_max_length (text_tokenizer m)
               \<and> (\<forall>hidden P. text_model m = BertModel hidden P
                      \<and> model_max_length (text_tokenizer m) \<le> P
                    \<longrightarrow> last_hidden_state (text_model m) ids = Inr [b, Lt, hidden])"
    by blast
qed

lemma example_long_text:
  "preprocess_text example_model (Single long_text) = Inr ([1, 512], [1, 512])"
  by (simp add: preprocess_text_def tokenizer_call_def encoded_length_def example_model_def
        example_tokenizer_def count_words_long_text Let_def)

text \<open>
  The amended C10 with the checkpoint of the notebook (maximum length 512, two special
  tokens, 512 positions) on the text of 600 words, truncated to 512.
\<close>

theorem text_truncated_to_max_length_witness:
  "Single long_text \<noteq> Batch []
   \<and> num_special_tokens (text_tokenizer example_model) < model_max_length (text_tokenizer example_model)
   \<and> preprocess_text example_model (Single long_text) = Inr ([1, 512], [1, 512])
   \<and> (512::nat) \<le> model_max_length (text_tokenizer example_model)
   \<and> text_model example_model = BertModel 768 512
   \<and> last_hidden_state (text_model example_model) [1, 512] = Inr [1, 512, 768]"
proof -
  have h1: "num_special_tokens (text_tokenizer example_model) < model_max_length (text_tokenizer example_model)"
    by (simp add: example_model_def example_tokenizer_def)
  have h2: "Single long_text \<noteq> Batch []" by simp
  have tm: "text_model example_model = BertModel 768 512"
    and ml: "model_max_length (text_tokenizer example_model) \<le> 512"
    and ml2: "(512::nat) \<le> model_max_length (text_tokenizer example_model)"
    by (simp_all add: example_model_def example_tokenizer_def)
  from text_truncated_to_max_length[of example_model "Single long_text"] example_long_text h1
  obtain b Lt where s: "[1, 512] = [b, Lt]"
    and acc: "\<forall>hidden P. text_model example_model = BertModel hidden P
                      \<and> model_max_length (text_tokenizer example_model) \<le> P
                    \<longrightarrow> last_hidden_state (text_model example_model) [1, 512] = Inr [b, Lt, hidden]"
    by blast
  from acc tm ml s have "last_hidden_state (text_model example_model) [1, 512] = Inr [1, 512, 768]"
    by auto
  with h1 h2 example_long_text ml2 tm show ?thesis by simp
qed


subsection \<open>Empty audio\<close>

text \<open>
  Claim C6 says that the audio preprocessing raises on empty audio. It does not: for an
  audio file without samples \<^verbatim>\<open>preprocess_audio\<close> returns a tensor of shape (1, 0).
\<close>

theorem empty_audio_no_check_counterexample:
  "preprocess_audio silent_files ''example_audio.wav'' = Inr [1, 0]"
  by (simp add: preprocess_audio_def silent_files_def example_files_def)

lemma Wav2Vec2Model_rejects_empty:
  "0 < k \<Longrightarrow> seq_len (Wav2Vec2Model hidden ((k, st) # layers)) [1, 0] = Inl RuntimeError"
  by (simp add: Wav2Vec2Model_def wav2vec2_frames_def)

text \<open>
  Claim C6, amended. For audio without samples \<^verbatim>\<open>preprocess_audio\<close> raises nothing and
  returns a tensor of shape (1, 0). If the audio encoder rejects that shape,
  \<^verbatim>\<open>forward\<close> returns no logits; when the text and image preprocessing and the text
  and image encoders succeeded, the exception \<^verbatim>\<open>forward\<close> raises is the one of the
  audio encoder. A Wav2Vec2 encoder whose first convolution has a kernel of at least
  one sample rejects the shape.
\<close>

theorem empty_audio_fails_in_encoder:
  assumes "librosa_load fs audio_path = Inr 0"
  shows "preprocess_audio fs audio_path = Inr [1, 0]
       \<and> (\<forall>e. seq_len (audio_model m) [1, 0] = Inl e
            \<longrightarrow> (\<exists>e'. forward fs m tx image_path audio_path = Inl e'))
       \<and> (\<forall>e ids msk ii tf imf. seq_len (audio_model m) [1, 0] = Inl e
              \<and> preprocess_text m tx = Inr (ids, msk)
              \<and> preprocess_image fs image_path = Inr ii
              \<and> last_hidden_state (text_model m) ids = Inr tf
              \<and> last_hidden_state (image_model m) ii = Inr imf
            \<longrightarrow> forward fs m tx image_path audio_path = Inl e)
       \<and> (\<forall>hidden k st layers. audio_model m = Wav2Vec2Model hidden ((k, st) # layers) \<and> 0 < k
            \<longrightarrow> seq_len (audio_model m) [1, 0] = Inl RuntimeError)"
proof -
  have pa: "preprocess_audio fs audio_path = Inr [1, 0]"
    using assms by (simp add: preprocess_audio_def)
  have lhs: "\<And>e. seq_len (audio_model m) [1, 0] = Inl e \<Longrightarrow>
               last_hidden_state (audio_model m) [1, 0] = Inl e"
    by (simp add: last_hidden_state_def)
  have gen: "\<And>e. seq_len (audio_model m) [1, 0] = Inl e \<Longrightarrow>
               \<exists>e'. forward fs m tx image_path audio_path = Inl e'"
  proof -
    fix e assume e: "seq_len (audio_model m) [1, 0] = Inl e"
    show "\<exists>e'. forward fs m tx image_path audio_path = Inl e'"
    proof (cases "forward fs m tx image_path audio_path")
      case (Inl e') then show ?thesis by blast
    next
      case (Inr logits)
      then obtain af where "last_hidden_state (audio_model m) [1, 0] = Inr af"
        using pa
        by (auto simp: forward_def forward_logits_def fused_tensor_def projected_def
              and_then_eq_Inr)
      with lhs[OF e] show ?thesis by simp
    qed
  qed
  have exact: "\<And>e ids msk ii tf imf. seq_len (audio_model m) [1, 0] = Inl e \<Longrightarrow>
        preprocess_text m tx = Inr (ids, msk) \<Longrightarrow>
        preprocess_image fs image_path = Inr ii \<Longrightarrow>
        last_hidden_state (text_model m) ids = Inr tf \<Longrightarrow>
        last_hidden_state (image_model m) ii = Inr imf \<Longrightarrow>
        forward fs m tx image_path audio_path = Inl e"
    using pa lhs
    by (simp add: forward_def forward_logits_def fused_tensor_def projected_def)
  show ?thesis using pa gen exact Wav2Vec2Model_rejects_empty by auto
qed

text \<open>
  The amended C6 in the concrete environment with the empty audio file.
\<close>

theorem empty_audio_fails_in_encoder_witness:
  "librosa_load silent_files ''example_audio.wav'' = Inr 0
   \<and> preprocess_audio silent_files ''example_audio.wav'' = Inr [1, 0]
   \<and> seq_len (audio_model example_model) [1, 0] = Inl RuntimeError
   \<and> forward silent_files example_model (Single ''hi'') ''example_image.jpg'' ''example_audio.wav''
       = Inl RuntimeError"
proof -
  have l: "librosa_load silent_files ''example_audio.wav'' = Inr 0"
    by (simp add: silent_files_def)
  have s: "seq_len (audio_model example_model) [1, 0] = Inl RuntimeError"
    by (simp add: example_model_def Wav2Vec2Model_def wav2vec2_frames_def)
  have pi: "preprocess_image silent_files ''example_image.jpg'' = Inr [1, 3, 224, 224]"
    by (simp add: preprocess_image_def silent_files_def example_files_def image_transform_def
          unsqueeze0_def)
  have t: "last_hidden_state (text_model example_model) [1, 3] = Inr [1, 3, 768]"
    by (simp add: example_model_def last_hidden_state_def BertModel_def bert_tokens_def)
  have im: "last_hidden_state (image_model example_model) [1, 3, 224, 224] = Inr [1, 197, 768]"
    by (simp add: example_model_def last_hidden_state_def ViTModel_def vit_tokens_def)
  from empty_audio_fails_in_encoder[OF l, of example_model "Single ''hi''" "''example_image.jpg''"]
       l s pi t im example_text
  show ?thesis by blast
qed


section \<open>The search\<close>

lemma float_less_irrefl: "\<not> float_less a a"
  by (cases a) simp_all

lemma float_less_asym: "float_less a b \<Longrightarrow> \<not> float_less b a"
  by (cases a; cases b) simp_all

lemma float_less_below_all:
  "float_less v vb \<Longrightarrow> \<not> float_less t vb \<Longrightarrow> t \<noteq> NaN \<Longrightarrow> float_less v t"
  by (cases v; cases vb; cases t) simp_all

lemma study_ok_create: "study_ok (create_study smp)"
  by (simp add: study_ok_def create_study_def)

lemma tell_not_complete:
  assumes ok: "study_ok st" and n: "number ft = length (trials st)" and s: "state ft \<noteq> COMPLETE"
  shows "study_ok (tell st ft)"
proof -
  have bt: "best_trial_id (tell st ft) = best_trial_id st"
    using s by (simp add: tell_def update_cache_def)
  have tr: "trials (tell st ft) = trials st @ [ft]" by (simp add: tell_def)
  have a: "\<forall>i<length (trials st @ [ft]). number ((trials st @ [ft]) ! i) = i"
    using ok n by (auto simp: study_ok_def nth_append)
  have b: "\<forall>t\<in>set (trials st @ [ft]). state t = COMPLETE \<longrightarrow> (\<exists>v. trial_value t = Some v \<and> v \<noteq> NaN)"
    using ok s by (auto simp: study_ok_def)
  have c: "(case best_trial_id st of
         None \<Rightarrow> (\<forall>t\<in>set (trials st @ [ft]). state t \<noteq> COMPLETE)
       | Some b \<Rightarrow> b < length (trials st @ [ft]) \<and> earliest_minimum (trials st @ [ft]) ((trials st @ [ft]) ! b))"
  proof (cases "best_trial_id st")
    case None
    then show ?thesis using ok s by (auto simp: study_ok_def)
  next
    case (Some b)
    with ok have bl: "b < length (trials st)" and em: "earliest_minimum (trials st) (trials st ! b)"
      by (auto simp: study_ok_def)
    have "earliest_minimum (trials st @ [ft]) (trials st ! b)"
      using em s by (auto simp: earliest_minimum_def)
    then show ?thesis using Some bl by (simp add: nth_append)
  qed
  show ?thesis unfolding study_ok_def bt tr using a b c by blast
qed

lemma tell_complete:
  assumes ok: "study_ok st" and n: "number ft = length (trials st)"
      and s: "state ft = COMPLETE" and v: "trial_value ft = Some v" and nn: "v \<noteq> NaN"
  shows "study_ok (tell st ft)"
proof -
  have tr: "trials (tell st ft) = trials st @ [ft]" by (simp add: tell_def)
  have a: "\<forall>i<length (trials st @ [ft]). number ((trials st @ [ft]) ! i) = i"
    using ok n by (auto simp: study_ok_def nth_append)
  have b: "\<forall>t\<in>set (trials st @ [ft]). state t = COMPLETE \<longrightarrow> (\<exists>v. trial_value t = Some v \<and> v \<noteq> NaN)"
    using ok v nn by (auto simp: study_ok_def)
  have c: "\<exists>b. best_trial_id (tell st ft) = Some b \<and> b < length (trials st @ [ft])
             \<and> earliest_minimum (trials st @ [ft]) ((trials st @ [ft]) ! b)"
  proof (cases "best_trial_id st")
    case None
    with ok have none: "\<forall>t\<in>set (trials st). state t \<noteq> COMPLETE" by (simp add: study_ok_def)
    have bt: "best_trial_id (tell st ft) = Some (length (trials st))"
      using None s n by (simp add: tell_def update_cache_def)
    have "earliest_minimum (trials st @ [ft]) ft"
      using none s v nn by (auto simp: earliest_minimum_def float_less_irrefl)
    then show ?thesis using bt by simp
  next
    case (Some b)
    with ok have bl: "b < length (trials st)" and em: "earliest_minimum (trials st) (trials st ! b)"
      by (auto simp: study_ok_def)
    from em obtain vb where vb: "trial_value (trials st ! b) = Some vb" "vb \<noteq> NaN"
        and mn: "\<forall>t\<in>set (trials st). state t = COMPLETE \<longrightarrow>
            (\<exists>v. trial_value t = Some v \<and> v \<noteq> NaN \<and> \<not> float_less v vb \<and>
                 (number t < number (trials st ! b) \<longrightarrow> float_less vb v))"
        and bc: "state (trials st ! b) = COMPLETE"
      by (auto simp: earliest_minimum_def)
    from ok have num: "\<forall>i<length (trials st). number (trials st ! i) = i" by (simp add: study_ok_def)
    have nb: "number (trials st ! b) = b" using num bl by simp
    show ?thesis
    proof (cases "float_less v vb")
      case True
      have bt: "best_trial_id (tell st ft) = Some (length (trials st))"
        using Some s n v vb bl True by (simp add: tell_def update_cache_def)
      have old: "\<forall>t\<in>set (trials st). state t = COMPLETE \<longrightarrow>
            (\<exists>u. trial_value t = Some u \<and> u \<noteq> NaN \<and> \<not> float_less u v \<and> float_less v u)"
      proof (intro ballI impI)
        fix t assume t: "t \<in> set (trials st)" "state t = COMPLETE"
        with mn obtain u where u: "trial_value t = Some u" "u \<noteq> NaN" "\<not> float_less u vb" by blast
        have "float_less v u" by (rule float_less_below_all[OF True u(3) u(2)])
        then show "\<exists>u. trial_value t = Some u \<and> u \<noteq> NaN \<and> \<not> float_less u v \<and> float_less v u"
          using u float_less_asym by blast
      qed
      have "earliest_minimum (trials st @ [ft]) ft"
        unfolding earliest_minimum_def
        using old s v nn by (auto simp: float_less_irrefl)
      then show ?thesis using bt by simp
    next
      case False
      have bt: "best_trial_id (tell st ft) = Some b"
        using Some s n v vb bl False by (simp add: tell_def update_cache_def)
      have "earliest_minimum (trials st @ [ft]) (trials st ! b)"
        unfolding earliest_minimum_def
        using bl bc vb mn v nn False n nb by auto
      then show ?thesis using bt bl by (simp add: nth_append)
    qed
  qed
  from c obtain b where "best_trial_id (tell st ft) = Some b" "b < length (trials st @ [ft])"
      "earliest_minimum (trials st @ [ft]) ((trials st @ [ft]) ! b)" by blast
  then show ?thesis unfolding study_ok_def tr using a b by simp
qed

lemma run_trial_ok:
  assumes "study_ok st"
  shows "study_ok (fst (run_trial func st)) \<and> length (trials (fst (run_trial func st))) = Suc (length (trials st))"
proof -
  obtain t outcome where f: "func (ask st) = (t, outcome)" by (cases "func (ask st)")
  show ?thesis
  proof (cases outcome)
    case (Inl e)
    then show ?thesis
      using f assms by (auto simp: run_trial_def tell_def intro!: tell_not_complete[unfolded tell_def])
  next
    case (Inr v)
    show ?thesis
    proof (cases "v = NaN")
      case True
      then show ?thesis
        using f Inr assms by (auto simp: run_trial_def tell_def intro!: tell_not_complete[unfolded tell_def])
    next
      case False
      then show ?thesis
        using f Inr assms
        by (auto simp: run_trial_def tell_def intro!: tell_complete[unfolded tell_def, where v=v])
    qed
  qed
qed

lemma optimize_ok:
  "study_ok st \<Longrightarrow> optimize func n st = (st', r) \<Longrightarrow>
     study_ok st' \<and> (r = None \<longrightarrow> length (trials st') = length (trials st) + n)"
proof (induction n arbitrary: st)
  case 0
  then show ?case by simp
next
  case (Suc n)
  obtain st1 r1 where rt: "run_trial func st = (st1, r1)" by (cases "run_trial func st")
  from run_trial_ok[OF Suc.prems(1), of func] rt
  have ok1: "study_ok st1" and l1: "length (trials st1) = Suc (length (trials st))" by simp_all
  show ?case
  proof (cases r1)
    case None
    with Suc.prems(2) rt have "optimize func n st1 = (st', r)" by simp
    from Suc.IH[OF ok1 this] l1 show ?thesis by simp
  next
    case (Some e)
    with Suc.prems(2) rt have "st' = st1" "r = Some e" by simp_all
    with ok1 show ?thesis by simp
  qed
qed

lemma run_trial_raise:
  assumes "snd (func (ask st)) = Inl e" and "e \<noteq> TrialPruned"
  shows "run_trial func st =
           (st\<lparr>trials := trials st @
                 [\<lparr>number = length (trials st), state = FAIL, trial_value = None,
                   params = suggested (fst (func (ask st)))\<rparr>]\<rparr>, Some e)"
  using assms
  by (cases "func (ask st)") (simp add: run_trial_def tell_def update_cache_def)

lemma ask_trial_at: "ask st = trial_at (sampler st) (length (trials st))"
  by (simp add: ask_def trial_at_def)

lemma run_trial_record:
  "trials (fst (run_trial func st))
     = trials st @ [record_of func (sampler st) (length (trials st))]
   \<and> sampler (fst (run_trial func st)) = sampler st"
proof -
  obtain t outcome where f: "func (trial_at (sampler st) (length (trials st))) = (t, outcome)"
    by (cases "func (trial_at (sampler st) (length (trials st)))")
  show ?thesis
  proof (cases outcome)
    case (Inl e)
    with f show ?thesis
      by (simp add: run_trial_def ask_trial_at tell_def record_of_def returned_def assignment_def)
  next
    case (Inr v)
    with f show ?thesis
      by (simp add: run_trial_def ask_trial_at tell_def record_of_def returned_def assignment_def)
  qed
qed

lemma run_trial_None:
  "snd (run_trial func st) = None \<Longrightarrow> returned func (sampler st) (length (trials st)) = Inl e
     \<Longrightarrow> e = TrialPruned"
  by (cases "func (trial_at (sampler st) (length (trials st)))")
     (auto simp: run_trial_def ask_trial_at returned_def split: if_splits)

lemma optimize_records:
  "optimize func n st = (st', r) \<Longrightarrow>
     sampler st' = sampler st
   \<and> length (trials st) \<le> length (trials st')
   \<and> trials st' = trials st
        @ map (record_of func (sampler st)) [length (trials st)..<length (trials st')]
   \<and> (r = None \<longrightarrow> (\<forall>i e. length (trials st) \<le> i \<and> i < length (trials st')
                         \<and> returned func (sampler st) i = Inl e \<longrightarrow> e = TrialPruned))"
proof (induction n arbitrary: st)
  case 0
  then show ?case by auto
next
  case (Suc n)
  obtain st1 r1 where rt: "run_trial func st = (st1, r1)" by (cases "run_trial func st")
  from run_trial_record[of func st] rt
  have tr1: "trials st1 = trials st @ [record_of func (sampler st) (length (trials st))]"
    and sm1: "sampler st1 = sampler st" by simp_all
  have up: "[length (trials st)..<Suc (length (trials st))] = [length (trials st)]" by simp
  show ?case
  proof (cases r1)
    case (Some e)
    with Suc.prems rt have "st' = st1" "r = Some e" by simp_all
    with tr1 sm1 show ?thesis by (simp add: up)
  next
    case None
    with Suc.prems rt have o: "optimize func n st1 = (st', r)" by simp
    from Suc.IH[OF o] have
          s: "sampler st' = sampler st1"
      and l: "length (trials st1) \<le> length (trials st')"
      and t: "trials st' = trials st1
               @ map (record_of func (sampler st1)) [length (trials st1)..<length (trials st')]"
      and p: "r = None \<longrightarrow> (\<forall>i e. length (trials st1) \<le> i \<and> i < length (trials st')
                         \<and> returned func (sampler st1) i = Inl e \<longrightarrow> e = TrialPruned)"
      by blast+
    have l1: "length (trials st1) = Suc (length (trials st))" using tr1 by simp
    have "[length (trials st)..<length (trials st')]
            = length (trials st) # [Suc (length (trials st))..<length (trials st')]"
      using l l1 by (simp add: upt_conv_Cons)
    with t tr1 sm1 l1 have t': "trials st' = trials st
        @ map (record_of func (sampler st)) [length (trials st)..<length (trials st')]"
      by simp
    have first: "\<And>e. returned func (sampler st) (length (trials st)) = Inl e \<Longrightarrow> e = TrialPruned"
      using run_trial_None[of func st] rt None by simp
    have p': "r = None \<longrightarrow> (\<forall>i e. length (trials st) \<le> i \<and> i < length (trials st')
                         \<and> returned func (sampler st) i = Inl e \<longrightarrow> e = TrialPruned)"
    proof (intro impI allI)
      fix i e
      assume r: "r = None" and a: "length (trials st) \<le> i \<and> i < length (trials st')
                         \<and> returned func (sampler st) i = Inl e"
      show "e = TrialPruned"
      proof (cases "i = length (trials st)")
        case True
        with a first show ?thesis by simp
      next
        case False
        with a l1 have "length (trials st1) \<le> i" by simp
        with p r a sm1 show ?thesis by (simp del: upt.simps) metis
      qed
    qed
    from s sm1 l l1 t' p' show ?thesis by simp
  qed
qed

lemma record_of_complete_iff:
  "state (record_of func smp i) = COMPLETE \<longleftrightarrow> (\<exists>v. returned func smp i = Inr v \<and> v \<noteq> NaN)"
  by (cases "returned func smp i") (auto simp: record_of_def)

lemma record_of_value:
  "returned func smp i = Inr v \<Longrightarrow> v \<noteq> NaN \<Longrightarrow> trial_value (record_of func smp i) = Some v"
  by (simp add: record_of_def)

lemma record_of_fields:
  "number (record_of func smp i) = i" "params (record_of func smp i) = assignment func smp i"
  by (simp_all add: record_of_def)

text \<open>
  Claim C2, amended. When \<^verbatim>\<open>study.optimize\<close> with \<^verbatim>\<open>n_trials = N\<close> returns, which it
  does when no call of the objective function raised, the study holds exactly \<open>N\<close>
  trial records, the record of trial \<open>i\<close> being completed with its value exactly when
  the objective function returned a float other than NaN, infinities included.
  \<^verbatim>\<open>best_params\<close> is then the assignment of the earliest trial of minimum value among
  those trials; when the objective function returned no float other than NaN,
  \<^verbatim>\<open>best_params\<close> raises \<^verbatim>\<open>ValueError\<close>.
\<close>

theorem optimize_returns_earliest_minimum:
  assumes "optimize func N (create_study smp) = (st, None)"
  shows "length (trials st) = N
       \<and> trials st = map (record_of func smp) [0..<N]
       \<and> (\<forall>i<N. \<forall>e. returned func smp i = Inl e \<longrightarrow> e = TrialPruned)
       \<and> (case best_params st of
            Inl e \<Rightarrow> e = ValueError \<and> (\<forall>i<N. \<forall>v. returned func smp i = Inr v \<longrightarrow> v = NaN)
          | Inr ps \<Rightarrow>
              (\<exists>b<N. \<exists>vb. returned func smp b = Inr vb \<and> vb \<noteq> NaN
                 \<and> ps = assignment func smp b
                 \<and> (\<forall>i<N. \<forall>v. returned func smp i = Inr v \<and> v \<noteq> NaN
                       \<longrightarrow> \<not> float_less v vb \<and> (i < b \<longrightarrow> float_less vb v))))"
proof -
  from optimize_ok[OF study_ok_create assms]
  have ok: "study_ok st" and len: "length (trials st) = N"
    by (simp_all add: create_study_def)
  from optimize_records[OF assms] len
  have tr: "trials st = map (record_of func smp) [0..<N]"
    and nr: "\<forall>i<N. \<forall>e. returned func smp i = Inl e \<longrightarrow> e = TrialPruned"
    by (simp_all add: create_study_def)
  have nth: "\<And>i. i < N \<Longrightarrow> trials st ! i = record_of func smp i" by (simp add: tr)
  have mem: "\<And>i. i < N \<Longrightarrow> record_of func smp i \<in> set (trials st)" by (simp add: tr)
  have best: "case best_params st of
            Inl e \<Rightarrow> e = ValueError \<and> (\<forall>i<N. \<forall>v. returned func smp i = Inr v \<longrightarrow> v = NaN)
          | Inr ps \<Rightarrow>
              (\<exists>b<N. \<exists>vb. returned func smp b = Inr vb \<and> vb \<noteq> NaN
                 \<and> ps = assignment func smp b
                 \<and> (\<forall>i<N. \<forall>v. returned func smp i = Inr v \<and> v \<noteq> NaN
                       \<longrightarrow> \<not> float_less v vb \<and> (i < b \<longrightarrow> float_less vb v)))"
  proof (cases "best_trial_id st")
    case None
    with ok have nc: "\<forall>t\<in>set (trials st). state t \<noteq> COMPLETE" by (simp add: study_ok_def)
    have "\<forall>i<N. \<forall>v. returned func smp i = Inr v \<longrightarrow> v = NaN"
    proof (intro allI impI)
      fix i v assume i: "i < N" and r: "returned func smp i = Inr v"
      from nc mem[OF i] have "state (record_of func smp i) \<noteq> COMPLETE" by blast
      with r show "v = NaN" by (simp add: record_of_complete_iff)
    qed
    with None show ?thesis by (simp add: best_params_def)
  next
    case (Some b)
    with ok have bl: "b < length (trials st)"
      and em: "earliest_minimum (trials st) (trials st ! b)"
      by (simp_all add: study_ok_def)
    from bl len have bN: "b < N" by simp
    from em nth[OF bN] obtain vb where
          st_b: "state (record_of func smp b) = COMPLETE"
      and vb: "trial_value (record_of func smp b) = Some vb" "vb \<noteq> NaN"
      and mn: "\<forall>t\<in>set (trials st). state t = COMPLETE \<longrightarrow>
            (\<exists>v. trial_value t = Some v \<and> v \<noteq> NaN \<and> \<not> float_less v vb \<and>
                 (number t < number (record_of func smp b) \<longrightarrow> float_less vb v))"
      by (auto simp: earliest_minimum_def)
    from st_b obtain vb' where rb': "returned func smp b = Inr vb'" "vb' \<noteq> NaN"
      by (auto simp: record_of_complete_iff)
    with vb record_of_value[OF rb'] have rb: "returned func smp b = Inr vb" by simp
    have all: "\<forall>i<N. \<forall>v. returned func smp i = Inr v \<and> v \<noteq> NaN
                       \<longrightarrow> \<not> float_less v vb \<and> (i < b \<longrightarrow> float_less vb v)"
    proof (intro allI impI)
      fix i v assume i: "i < N" and r: "returned func smp i = Inr v \<and> v \<noteq> NaN"
      then have c: "state (record_of func smp i) = COMPLETE"
        and tv: "trial_value (record_of func smp i) = Some v"
        by (auto simp: record_of_complete_iff record_of_value)
      from mn mem[OF i] c tv
      show "\<not> float_less v vb \<and> (i < b \<longrightarrow> float_less vb v)"
        by (auto simp: record_of_fields)
    qed
    have "best_params st = Inr (assignment func smp b)"
      using Some bl nth[OF bN] by (simp add: best_params_def record_of_fields)
    with bN rb vb(2) all show ?thesis by auto
  qed
  from len tr nr best show ?thesis by simp
qed

lemma example_run:
  "optimize (scripted [Inr (Fin 2), Inr (Fin 1), Inr (Fin 1)]) 3 (create_study example_sampler) =
     (\<lparr>trials = [\<lparr>number = 0, state = COMPLETE, trial_value = Some (Fin 2), params = [(''lr'', 1 / 100000)]\<rparr>,
                 \<lparr>number = 1, state = COMPLETE, trial_value = Some (Fin 1), params = [(''lr'', 1 / 1000)]\<rparr>,
                 \<lparr>number = 2, state = COMPLETE, trial_value = Some (Fin 1), params = [(''lr'', 1 / 100000)]\<rparr>],
       best_trial_id = Some 1, sampler = example_sampler\<rparr>, None)"
  by (simp add: eval_nat_numeral run_trial_def ask_def tell_def update_cache_def scripted_def
        suggest_loguniform_def create_study_def example_sampler_def Let_def)

text \<open>
  The amended C2 on three trials with values 2, 1 and 1: three records, and the second
  trial is the best.
\<close>

theorem optimize_returns_earliest_minimum_witness:
  "optimize (scripted [Inr (Fin 2), Inr (Fin 1), Inr (Fin 1)]) 3 (create_study example_sampler) =
     (\<lparr>trials = [\<lparr>number = 0, state = COMPLETE, trial_value = Some (Fin 2), params = [(''lr'', 1 / 100000)]\<rparr>,
                 \<lparr>number = 1, state = COMPLETE, trial_value = Some (Fin 1), params = [(''lr'', 1 / 1000)]\<rparr>,
                 \<lparr>number = 2, state = COMPLETE, trial_value = Some (Fin 1), params = [(''lr'', 1 / 100000)]\<rparr>],
       best_trial_id = Some 1, sampler = example_sampler\<rparr>, None)
   \<and> map (record_of (scripted [Inr (Fin 2), Inr (Fin 1), Inr (Fin 1)]) example_sampler) [0..<3]
       = [\<lparr>number = 0, state = COMPLETE, trial_value = Some (Fin 2), params = [(''lr'', 1 / 100000)]\<rparr>,
          \<lparr>number = 1, state = COMPLETE, trial_value = Some (Fin 1), params = [(''lr'', 1 / 1000)]\<rparr>,
          \<lparr>number = 2, state = COMPLETE, trial_value = Some (Fin 1), params = [(''lr'', 1 / 100000)]\<rparr>]
   \<and> best_params
       \<lparr>trials = [\<lparr>number = 0, state = COMPLETE, trial_value = Some (Fin 2), params = [(''lr'', 1 / 100000)]\<rparr>,
                 \<lparr>number = 1, state = COMPLETE, trial_value = Some (Fin 1), params = [(''lr'', 1 / 1000)]\<rparr>,
                 \<lparr>number = 2, state = COMPLETE, trial_value = Some (Fin 1), params = [(''lr'', 1 / 100000)]\<rparr>],
       best_trial_id = Some 1, sampler = example_sampler\<rparr> = Inr [(''lr'', 1 / 1000)]
   \<and> returned (scripted [Inr (Fin 2), Inr (Fin 1), Inr (Fin 1)]) example_sampler 1 = Inr (Fin 1)
   \<and> assignment (scripted [Inr (Fin 2), Inr (Fin 1), Inr (Fin 1)]) example_sampler 1
       = [(''lr'', 1 / 1000)]"
proof -
  have bp: "best_params
       \<lparr>trials = [\<lparr>number = 0, state = COMPLETE, trial_value = Some (Fin 2), params = [(''lr'', 1 / 100000)]\<rparr>,
                 \<lparr>number = 1, state = COMPLETE, trial_value = Some (Fin 1), params = [(''lr'', 1 / 1000)]\<rparr>,
                 \<lparr>number = 2, state = COMPLETE, trial_value = Some (Fin 1), params = [(''lr'', 1 / 100000)]\<rparr>],
       best_trial_id = Some 1, sampler = example_sampler\<rparr> = Inr [(''lr'', 1 / 1000)]"
    by (simp add: best_params_def)
  have r: "returned (scripted [Inr (Fin 2), Inr (Fin 1), Inr (Fin 1)]) example_sampler 1 = Inr (Fin 1)"
    and a: "assignment (scripted [Inr (Fin 2), Inr (Fin 1), Inr (Fin 1)]) example_sampler 1
       = [(''lr'', 1 / 1000)]"
    by (simp_all add: returned_def assignment_def trial_at_def scripted_def suggest_loguniform_def
          example_sampler_def Let_def)
  from optimize_returns_earliest_minimum[OF example_run]
  have "trials \<lparr>trials = [\<lparr>number = 0, state = COMPLETE, trial_value = Some (Fin 2), params = [(''lr'', 1 / 100000)]\<rparr>,
                 \<lparr>number = 1, state = COMPLETE, trial_value = Some (Fin 1), params = [(''lr'', 1 / 1000)]\<rparr>,
                 \<lparr>number = 2, state = COMPLETE, trial_value = Some (Fin 1), params = [(''lr'', 1 / 100000)]\<rparr>],
       best_trial_id = Some 1, sampler = example_sampler\<rparr>
      = map (record_of (scripted [Inr (Fin 2), Inr (Fin 1), Inr (Fin 1)]) example_sampler) [0..<3]"
    by (elim conjE)
  then have m: "map (record_of (scripted [Inr (Fin 2), Inr (Fin 1), Inr (Fin 1)]) example_sampler) [0..<3]
       = [\<lparr>number = 0, state = COMPLETE, trial_value = Some (Fin 2), params = [(''lr'', 1 / 100000)]\<rparr>,
          \<lparr>number = 1, state = COMPLETE, trial_value = Some (Fin 1), params = [(''lr'', 1 / 1000)]\<rparr>,
          \<lparr>number = 2, state = COMPLETE, trial_value = Some (Fin 1), params = [(''lr'', 1 / 100000)]\<rparr>]"
    by simp
  show ?thesis
    by (intro conjI) (rule example_run m bp r a)+
qed

text \<open>
  Claim C2 says that the best record is chosen among finite values, that a search
  without a successful trial raises, and that the search always makes \<open>N\<close> attempts. A
  search whose two trials both return \<open>+\<infinity>\<close> has best parameters, those of its first
  trial; and a search of three trials whose first trial raises \<^verbatim>\<open>RuntimeError\<close> ends
  after that one attempt with that exception.
\<close>

theorem best_params_finite_counterexample:
  "best_params (fst (optimize (scripted [Inr PosInf, Inr PosInf]) 2 (create_study example_sampler)))
     = Inr [(''lr'', 1 / 100000)]
   \<and> optimize (scripted [Inl RuntimeError, Inr (Fin 1), Inr (Fin 1)]) 3 (create_study example_sampler)
     = (\<lparr>trials = [\<lparr>number = 0, state = FAIL, trial_value = None, params = [(''lr'', 1 / 100000)]\<rparr>],
         best_trial_id = None, sampler = example_sampler\<rparr>, Some RuntimeError)"
  by (simp add: eval_nat_numeral run_trial_def ask_def tell_def update_cache_def scripted_def
        suggest_loguniform_def create_study_def example_sampler_def best_params_def Let_def)

text \<open>
  Claim C3, amended. When the objective function raises an exception other than
  \<^verbatim>\<open>TrialPruned\<close> in a trial, \<^verbatim>\<open>study.optimize\<close> records that trial with state
  \<^verbatim>\<open>FAIL\<close> and without a value, leaves the best trial as it was, and raises the
  exception again: the remaining trials of the budget do not run.
\<close>

theorem raising_trial_ends_search:
  assumes "snd (func (ask st)) = Inl e" and "e \<noteq> TrialPruned"
  shows "optimize func (Suc n) st =
           (st\<lparr>trials := trials st @
                 [\<lparr>number = length (trials st), state = FAIL, trial_value = None,
                   params = suggested (fst (func (ask st)))\<rparr>]\<rparr>, Some e)"
  using run_trial_raise[of func st e] assms by simp

text \<open>
  The amended C3 on a search of ten trials whose first trial raises \<^verbatim>\<open>ValueError\<close>.
\<close>

theorem raising_trial_ends_search_witness:
  "snd (scripted [Inl ValueError] (ask (create_study example_sampler))) = Inl ValueError
   \<and> ValueError \<noteq> TrialPruned
   \<and> optimize (scripted [Inl ValueError]) (Suc 9) (create_study example_sampler) =
       (\<lparr>trials = [\<lparr>number = 0, state = FAIL, trial_value = None, params = [(''lr'', 1 / 100000)]\<rparr>],
         best_trial_id = None, sampler = example_sampler\<rparr>, Some ValueError)"
proof -
  have h: "snd (scripted [Inl ValueError] (ask (create_study example_sampler))) = Inl ValueError"
    by (simp add: scripted_def ask_def create_study_def suggest_loguniform_def example_sampler_def Let_def)
  have n: "ValueError \<noteq> TrialPruned" by simp
  have f: "suggested (fst (scripted [Inl ValueError] (ask (create_study example_sampler)))) = [(''lr'', 1 / 100000)]"
    by (simp add: scripted_def ask_def create_study_def suggest_loguniform_def example_sampler_def Let_def)
  from raising_trial_ends_search[of "scripted [Inl ValueError]" "create_study example_sampler"
         ValueError 9] h n f
  show ?thesis by (simp add: create_study_def)
qed

text \<open>
  Claim C3 says that a trial whose training step raises is recorded with value \<open>+\<infinity>\<close>
  and that the search continues. In a search of three trials whose second trial raises
  \<^verbatim>\<open>RuntimeError\<close>, that trial is recorded without a value, the exception leaves
  \<^verbatim>\<open>optimize\<close>, and the third trial never runs.
\<close>

theorem failed_trial_counterexample:
  "optimize (scripted [Inr (Fin 1), Inl RuntimeError, Inr (Fin 0)]) 3 (create_study example_sampler)
     = (\<lparr>trials = [\<lparr>number = 0, state = COMPLETE, trial_value = Some (Fin 1), params = [(''lr'', 1 / 100000)]\<rparr>,
                   \<lparr>number = 1, state = FAIL, trial_value = None, params = [(''lr'', 1 / 1000)]\<rparr>],
         best_trial_id = Some 0, sampler = example_sampler\<rparr>, Some RuntimeError)"
  by (simp add: eval_nat_numeral run_trial_def ask_def tell_def update_cache_def scripted_def
        suggest_loguniform_def create_study_def example_sampler_def Let_def)

lemma optimize_no_raise:
  "(\<forall>t e. snd (func t) = Inl e \<longrightarrow> e = TrialPruned) \<Longrightarrow> snd (optimize func n st) = None"
proof (induction n arbitrary: st)
  case 0
  then show ?case by simp
next
  case (Suc n)
  obtain t outcome where f: "func (ask st) = (t, outcome)" by (cases "func (ask st)")
  have "snd (run_trial func st) = None"
  proof (cases outcome)
    case (Inl e)
    with f Suc.prems have "e = TrialPruned" by (metis snd_conv)
    with f Inl show ?thesis by (simp add: run_trial_def)
  next
    case (Inr v)
    with f show ?thesis by (simp add: run_trial_def)
  qed
  then obtain st1 where "run_trial func st = (st1, None)" by (cases "run_trial func st") simp
  with Suc.IH[OF Suc.prems] show ?case by simp
qed


subsection \<open>Sampled values\<close>








subsection \<open>The objective function in the notebook\<close>

lemma objective_unbound_name:
  "globals ''MultimodalTransformerTuner'' = None \<Longrightarrow> snd (objective w globals t) = Inl NameError"
  by (simp add: objective_def suggest_loguniform_def lookup_name_def Let_def
           split: option.splits)

text \<open>
  Claim C4 says that every call of the objective function builds a model and an
  optimizer, runs one training step and returns its loss. In the notebook as written
  the objective function reads the name \<^verbatim>\<open>MultimodalTransformerTuner\<close>, which no cell
  defines; every call raises \<^verbatim>\<open>NameError\<close> after the two suggestions and before any
  model exists, and the tuning cell ends with that exception in its first trial.
\<close>

theorem objective_raises_NameError:
  "snd (objective w (notebook_globals w) t) = Inl NameError
   \<and> tune w (notebook_globals w) smp = Inl NameError"
proof -
  have u: "notebook_globals w ''MultimodalTransformerTuner'' = None"
    by (simp add: notebook_globals_def)
  have o: "\<And>t. snd (objective w (notebook_globals w) t) = Inl NameError"
    using objective_unbound_name[of "notebook_globals w" w] u by simp
  have ne: "NameError \<noteq> TrialPruned" by simp
  obtain st' where r: "run_trial (objective w (notebook_globals w)) (create_study smp) = (st', Some NameError)"
    using run_trial_raise[of "objective w (notebook_globals w)" "create_study smp" NameError] o ne
    by simp
  have "optimize (objective w (notebook_globals w)) (Suc 9) (create_study smp) = (st', Some NameError)"
    by (subst optimize.simps(2)) (simp add: r)
  moreover have "(10::nat) = Suc 9" by simp
  ultimately have "snd (optimize (objective w (notebook_globals w)) 10 (create_study smp)) = Some NameError"
    by (simp only: snd_conv)
  then have "tune w (notebook_globals w) smp = Inl NameError"
    by (cases "optimize (objective w (notebook_globals w)) 10 (create_study smp)")
       (simp add: tune_def)
  with o show ?thesis by simp
qed

text \<open>
  With the name bound to the class of the first cell, the objective function builds
  the model, runs the forward pass in training mode and returns the loss.
\<close>

lemma count_words_example: "count_words ''This is an example text input.'' = 6"
  by simp

lemma example_forward_train:
  "forward example_files (train example_model) (Single ''This is an example text input.'')
     ''example_image.jpg'' ''example_audio.wav'' = Inr [1, 10]"
proof -
  have t: "preprocess_text (train example_model) (Single ''This is an example text input.'')
             = Inr ([1, 8], [1, 8])"
    by (simp add: preprocess_text_def tokenizer_call_def encoded_length_def train_def
          example_model_def example_tokenizer_def Let_def)
  have a: "preprocess_audio example_files ''example_audio.wav'' = Inr [1, 16000]"
    by (simp add: preprocess_audio_def example_files_def)
  have tm: "last_hidden_state (text_model (train example_model)) [Suc 0, 8] = Inr [1, 8, 768]"
    by (simp add: last_hidden_state_def train_def train_mode_def example_model_def BertModel_def
          bert_tokens_def)
  have im: "last_hidden_state (image_model (train example_model)) [Suc 0, 3, 224, 224]
              = Inr [1, 197, 768]"
    by (simp add: last_hidden_state_def train_def train_mode_def example_model_def ViTModel_def
          vit_tokens_def)
  have am: "last_hidden_state (audio_model (train example_model)) [Suc 0, 16000] = Inr [1, 49, 768]"
    by (simp add: last_hidden_state_def train_def train_mode_def example_model_def
          Wav2Vec2Model_def wav2vec2_frames_def mask_time_length_def)
  have pj: "text_proj (train example_model) = nn_Linear 768 768"
      "image_proj (train example_model) = nn_Linear 768 768"
      "audio_proj (train example_model) = nn_Linear 768 768"
      "d_model (transformer (train example_model)) = 768"
      "classifier (train example_model) = nn_Linear 768 10"
    by (simp_all add: train_def example_model_def)
  have p: "projected example_files (train example_model) (Single ''This is an example text input.'')
             ''example_image.jpg'' ''example_audio.wav''
           = Inr ([1, 8, 768], [1, 197, 768], [1, 49, 768])"
    by (simp add: projected_def t example_image a tm im am pj linear_forward_3)
  have u: "[0..<254] = 0 # [1..<254]" by (simp add: upt_conv_Cons)
  show ?thesis
    by (simp add: forward_def forward_logits_def fused_tensor_def p fuse_projected pj
          classify_first[OF pj(5), of 1 253, simplified] u)
qed

lemma objective_with_name_bound:
  "objective example_world
     (\<lambda>name. if name = ''MultimodalTransformerTuner'' then Some (init_default example_hub) else None)
     (ask (create_study example_sampler))
   = (\<lparr>trial_id = 0, suggested = [(''lr'', 1 / 100000), (''weight_decay'', 1 / 1000000)],
        draw = example_sampler 0\<rparr>, Inr (Fin 1))"
  by (simp add: objective_def suggest_loguniform_def lookup_name_def init_default_def
        example_init example_world_def example_forward_train AdamW_def CrossEntropyLoss_def
        ask_def create_study_def example_sampler_def Let_def)


end
